theory Spec2Isabelle
  imports Main "HOL-Library.AList"
begin

section \<open>Strings and regular expressions used by the adapter\<close>

text \<open>
  A JavaScript string is a sequence of UTF-16 code units. The model uses \<open>string\<close>, so it
  covers the code units below 256 (ASCII and the Latin-1 supplement). Reading a string at an
  index that is out of range gives \<open>undefined\<close> in JavaScript: \<open>None\<close> here.
\<close>

datatype error = TypeError

definition charAt :: "string \<Rightarrow> int \<Rightarrow> char option" where
  "charAt s i = (if 0 \<le> i \<and> i < int (length s) then Some (s ! nat i) else None)"

text \<open>The class \<open>\w\<close> of a JavaScript regular expression is \<open>[A-Za-z0-9_]\<close>; \<open>\W\<close> is its complement.\<close>

definition isWordChar :: "char \<Rightarrow> bool" where
  "isWordChar c = (let n = (of_char c :: nat) in
     (48 \<le> n \<and> n \<le> 57) \<or> (65 \<le> n \<and> n \<le> 90) \<or> n = 95 \<or> (97 \<le> n \<and> n \<le> 122))"

definition isNonWordChar :: "char \<Rightarrow> bool" where
  "isNonWordChar c = (\<not> isWordChar c)"

text \<open>\<open>/\W/.test(s)\<close> and \<open>/\W+/.test(s)\<close>: some character of \<open>s\<close> is a non-word character.\<close>

definition testNonWord :: "string \<Rightarrow> bool" where
  "testNonWord s = list_ex isNonWordChar s"

text \<open>
  \<open>/\W/u.test(line[i])\<close>: when \<open>line[i]\<close> is \<open>undefined\<close> the regular expression is
  tested against the text \<open>undefined\<close>, which has no non-word character.
\<close>

definition testNonWordAt :: "string \<Rightarrow> nat \<Rightarrow> bool" where
  "testNonWordAt s i = (case charAt s (int i) of None \<Rightarrow> False | Some c \<Rightarrow> isNonWordChar c)"

text \<open>
  \<open>toLowerCase\<close> on code units below 256. \<open>toLocaleLowerCase\<close> is modelled by the same
  function (the host locale has no special casing rule of its own).
\<close>

definition toLowerChar :: "char \<Rightarrow> char" where
  "toLowerChar c = (let n = (of_char c :: nat) in
     if (65 \<le> n \<and> n \<le> 90) \<or> (192 \<le> n \<and> n \<le> 214) \<or> (216 \<le> n \<and> n \<le> 222)
     then char_of (n + 32) else c)"

definition toLowerCase :: "string \<Rightarrow> string" where
  "toLowerCase s = map toLowerChar s"

fun startsWith :: "string \<Rightarrow> string \<Rightarrow> bool" where
  "startsWith s [] = True"
| "startsWith [] (c # w) = False"
| "startsWith (d # s) (c # w) = (d = c \<and> startsWith s w)"

text \<open>\<open>s.split(c)\<close> for a one-character separator: the pieces between the separators.\<close>

fun splitOn :: "char \<Rightarrow> string \<Rightarrow> string list" where
  "splitOn c [] = [[]]"
| "splitOn c (d # s) =
     (if d = c then [] # splitOn c s
      else (case splitOn c s of [] \<Rightarrow> [[d]] | p # ps \<Rightarrow> (d # p) # ps))"

text \<open>
  \<open>s.split(/\W+/)\<close>: the pieces between the maximal runs of non-word characters; a run at
  the start or at the end of \<open>s\<close> leaves an empty piece there.
\<close>

function splitNonWord :: "string \<Rightarrow> string list" where
  "splitNonWord s =
     (let w = takeWhile isWordChar s; r = dropWhile isWordChar s
      in if r = [] then [w] else w # splitNonWord (dropWhile isNonWordChar r))"
  by pat_completeness auto
termination
proof (relation "measure length", goal_cases)
  case 1
  show ?case by simp
next
  case (2 s w r)
  then obtain c cs where rc: "dropWhile isWordChar s = c # cs"
    by (cases "dropWhile isWordChar s") auto
  have "length (dropWhile isNonWordChar cs) \<le> length cs"
    by (rule length_dropWhile_le)
  moreover have "length (c # cs) \<le> length s"
    using length_dropWhile_le [of isWordChar s] rc by simp
  moreover have "\<not> isWordChar c"
    using hd_dropWhile [of isWordChar s] rc by simp
  ultimately show ?case using 2 rc by (simp add: isNonWordChar_def)
qed

section \<open>Data model\<close>

record Position =
  line :: int
  ch :: int

text \<open>
  \<open>ICompletionTokenInfo\<close> (text: a string) and \<open>ITokenInfo\<close> (text: a list of messages)
  share their shape.
\<close>

record 'a TokenInfo =
  tokText :: 'a
  tokStart :: Position
  tokEnd :: Position

record CompletionItem =
  label :: string
  filterText :: "string option"

section \<open>Token extractor\<close>

text \<open>
  The backward loop \<open>for (let i = location.ch - 1; i >= 0; i--)\<close> of
  \<open>_getTokenEndingAtPosition\<close>: \<open>scanBack line n w\<close> runs it from \<open>i = n - 1\<close> with
  \<open>wordStartChar = w\<close>.
\<close>

primrec scanBack :: "string \<Rightarrow> nat \<Rightarrow> int \<Rightarrow> int" where
  "scanBack ln 0 w = w"
| "scanBack ln (Suc i) w = (if testNonWordAt ln i then w else scanBack ln i (int i))"

text \<open>\<open>s.substr(from, len)\<close> for \<open>from \<ge> 0\<close>: at most \<open>len\<close> characters, starting at \<open>from\<close>.\<close>

definition substr :: "string \<Rightarrow> int \<Rightarrow> int \<Rightarrow> string" where
  "substr s from len = take (nat len) (drop (nat from) s)"

text \<open>\<open>lines[location.line]\<close>: \<open>undefined\<close> when the document has no such line.\<close>

definition lineAt :: "string list \<Rightarrow> int \<Rightarrow> string option" where
  "lineAt ls i = (if 0 \<le> i \<and> i < int (length ls) then Some (ls ! nat i) else None)"

text \<open>The fall-through part of \<open>_getTokenEndingAtPosition\<close>: the backward scan and the token it returns.\<close>

definition wordTokenAt :: "string \<Rightarrow> Position \<Rightarrow> string TokenInfo" where
  "wordTokenAt ln location =
     (let wordStartChar = scanBack ln (nat (ch location)) 0
      in \<lparr>tokText = substr ln wordStartChar (ch location),
          tokStart = \<lparr>line = line location, ch = wordStartChar\<rparr>,
          tokEnd = location\<rparr>)"

text \<open>
  \<open>_getTokenEndingAtPosition\<close>. Reading \<open>line[location.ch - 1]\<close> of a line that does not exist
  throws. \<open>splitCharacters.indexOf(typedCharacter) > -1\<close> holds when the one-character string
  is an element of the array; \<open>undefined\<close> is none.
\<close>

definition getTokenEndingAtPosition ::
  "string \<Rightarrow> Position \<Rightarrow> string list \<Rightarrow> error + string TokenInfo" where
  "getTokenEndingAtPosition code location splitCharacters =
     (case lineAt (splitOn CHR 0x0A code) (line location) of
        None \<Rightarrow> Inl TypeError
      | Some ln \<Rightarrow>
          (case charAt ln (ch location - 1) of
             None \<Rightarrow> Inr (wordTokenAt ln location)
           | Some typedCharacter \<Rightarrow>
               if [typedCharacter] \<in> set splitCharacters
               then Inr \<lparr>tokText = [typedCharacter],
                         tokStart = \<lparr>line = line location, ch = ch location - 1\<rparr>,
                         tokEnd = location\<rparr>
               else Inr (wordTokenAt ln location)))"

section \<open>Completion ranker\<close>

text \<open>
  \<open>Array.prototype.sort\<close> with a comparison function is stable: an insertion sort that
  puts an element before the first one it does not compare greater than.
\<close>

fun insertBy :: "('a \<Rightarrow> 'a \<Rightarrow> int) \<Rightarrow> 'a \<Rightarrow> 'a list \<Rightarrow> 'a list" where
  "insertBy cmp x [] = [x]"
| "insertBy cmp x (y # ys) = (if cmp x y \<le> 0 then x # y # ys else y # insertBy cmp x ys)"

definition sortBy :: "('a \<Rightarrow> 'a \<Rightarrow> int) \<Rightarrow> 'a list \<Rightarrow> 'a list" where
  "sortBy cmp xs = foldr (insertBy cmp) xs []"

text \<open>\<open>triggerWord.split(/\W+/)[0]\<close>; the split never returns an empty array.\<close>

definition firstWord :: "string \<Rightarrow> string" where
  "firstWord triggerWord = hd (splitNonWord triggerWord)"

text \<open>The filter callback of \<open>_getFilteredCompletions\<close>. An empty filter text is falsy.\<close>

definition keepItem :: "string \<Rightarrow> bool \<Rightarrow> CompletionItem \<Rightarrow> bool" where
  "keepItem word canMatchWholeWord item =
     (let lbl = toLowerCase (label item) in
      if (case filterText item of
            None \<Rightarrow> False
          | Some f \<Rightarrow> f \<noteq> [] \<and> startsWith (toLowerCase f) word) then True
      else if canMatchWholeWord = False \<and> lbl = word then False
      else startsWith lbl word)"

text \<open>The comparison function of \<open>_getFilteredCompletions\<close>.\<close>

definition compareItems :: "string \<Rightarrow> CompletionItem \<Rightarrow> CompletionItem \<Rightarrow> int" where
  "compareItems word a b =
     (let labelA = toLowerCase (label a);
          labelB = toLowerCase (label b);
          inA = (if startsWith labelA word then - 1 else 1);
          inB = (if startsWith labelB word then 1 else - 1)
      in inA + inB)"

text \<open>\<open>items\<close> is \<open>None\<close> when the caller passes no candidate list (\<open>!items\<close>).\<close>

definition getFilteredCompletions ::
  "string \<Rightarrow> CompletionItem list option \<Rightarrow> bool \<Rightarrow> CompletionItem list" where
  "getFilteredCompletions triggerWord items canMatchWholeWord =
     (if testNonWord (firstWord triggerWord) then []
      else
        (case items of
           None \<Rightarrow> []
         | Some its \<Rightarrow>
             (let word = toLowerCase (firstWord triggerWord)
              in sortBy (compareItems word) (filter (keepItem word canMatchWholeWord) its))))"

section \<open>Protocol payloads\<close>

record LspPosition =
  lspLine :: int
  character :: int

record Range =
  rangeStart :: LspPosition
  rangeEnd :: LspPosition

record Diagnostic =
  drange :: Range
  message :: string

record PublishDiagnosticsParams =
  uri :: string
  diagnostics :: "Diagnostic list"

record Location =
  locUri :: string
  locRange :: Range

record LocationLink =
  targetUri :: string
  targetRange :: Range

text \<open>The argument of \<open>handleGoTo\<close>: \<open>Location | Location[] | LocationLink[] | null\<close>.\<close>

datatype GoToPayload =
    NoLocation
  | OneLocation Location
  | LocationList "Location list"
  | LocationLinkList "LocationLink list"

record SignatureInformation =
  sigLabel :: string

text \<open>
  \<open>SignatureHelp\<close>. The type requires \<open>signatures\<close>; \<open>None\<close> stands for a response that
  arrives without the field.
\<close>

record SignatureHelp =
  signatures :: "SignatureInformation list option"

section \<open>The editor, the page and the connection as the adapter sees them\<close>

text \<open>
  The listeners the adapter binds in \<open>_addListeners\<close>; each is bound once, so a listener is
  known by the method it wraps.
\<close>

datatype handler =
    HandleChange | HandleHover | HandleCompletion | HandleSignature | HandleDiagnostic
  | HandleRefresh | HandleMouseLeave | HandleScrollLeave | HandleMouseOver
  | HandleRightClick | HandleClickOutside | HandleClickInside

text \<open>
  An event emitter keeps its listeners as (event name, listener) pairs. \<open>on\<close> and
  \<open>addEventListener\<close> add a pair; \<open>off\<close> and \<open>removeEventListener\<close> remove the pair with
  that event name and that listener, and do nothing when there is none or when the listener
  is \<open>undefined\<close>.
\<close>

type_synonym listeners = "(string \<times> handler) list"

definition addListener :: "string \<Rightarrow> handler \<Rightarrow> listeners \<Rightarrow> listeners" where
  "addListener ev h ls = ls @ [(ev, h)]"

definition removeListener :: "string \<Rightarrow> handler option \<Rightarrow> listeners \<Rightarrow> listeners" where
  "removeListener ev h ls = (case h of None \<Rightarrow> ls | Some f \<Rightarrow> remove1 (ev, f) ls)"

record TextMark =
  markId :: nat
  markFrom :: Position
  markTo :: Position
  className :: string

text \<open>The rectangle \<open>getBoundingClientRect\<close> gives for an element, in client coordinates.\<close>

record Rect =
  rectLeft :: int
  rectTop :: int
  rectRight :: int
  rectBottom :: int

text \<open>
  The editor surface: the lines of the document (CodeMirror keeps at least one), the
  rectangle of the wrapper element (the adapter never reads it), the marked ranges
  (\<open>getAllMarks\<close>), the markers of the gutter \<open>CodeMirror-lsp\<close> by line (with the marker's
  title), the line widgets, the positions passed to \<open>scrollIntoView\<close>, the signals sent with
  \<open>CodeMirror.signal\<close>, the listeners of the editor and of its wrapper element, and the
  children the adapter appends to the wrapper element: the overlays (with the lines of text
  they show) and the hint lists of the show-hint addon.
\<close>

record Editor =
  docLines :: "string list"
  wrapperRect :: Rect
  marks :: "TextMark list"
  nextMark :: nat
  gutter :: "(int \<times> string) list"
  widgets :: "nat list"
  scrolledTo :: "Position list"
  signals :: "(string \<times> Diagnostic list) list"
  editorHandlers :: listeners
  wrapperHandlers :: listeners
  overlays :: "(nat \<times> string list) list"
  nextElement :: nat
  hintLists :: "nat list"

datatype request =
    SendChange
  | GetHoverTooltip Position
  | GetSignatureHelp Position
  | GetDefinition Position
  | GetTypeDefinition Position
  | GetReferences Position

record Connection =
  documentUri :: string
  requests :: "request list"
  connectionHandlers :: listeners

record Options =
  enableHoverInfo :: bool
  enableDiagnostics :: bool
  enableSignatures :: bool
  enableGutterMarks :: bool
  enableContextMenu :: bool
  suggest :: bool
  debounceSuggestionsWhileTyping :: int
  quickSuggestionsDelay :: int
  diagnosticMarkClassName :: string

text \<open>
  A function wrapped by \<open>debounce(f, wait)\<close>: the interval it was created with, and the
  arguments of the call that waits for the interval to pass, if one does.
\<close>

record 'a Debounced =
  wait :: int
  pendingCall :: "'a option"

definition debounce :: "int \<Rightarrow> 'a Debounced" where
  "debounce w = \<lparr>wait = w, pendingCall = None\<rparr>"

definition callDebounced :: "'a \<Rightarrow> 'a Debounced \<Rightarrow> 'a Debounced" where
  "callDebounced a d = d\<lparr>pendingCall := Some a\<rparr>"

section \<open>The adapter\<close>

text \<open>
  The fields of \<open>CodeMirrorAdapter\<close>. \<open>changeListener\<close> is the debounced \<open>handleChange\<close> that
  \<open>_addListeners\<close> creates (there is none before). \<open>documentHandlers\<close> are the listeners of
  the page's \<open>document\<close>.
\<close>

record Adapter =
  options :: Options
  editor :: Editor
  connection :: Connection
  snippets :: "CompletionItem list"
  hoverMarker :: "nat option"
  signatureWidget :: "nat option"
  token :: "string TokenInfo option"
  markedDiagnostics :: "nat list"
  diagnosticResults :: "string list TokenInfo list"
  highlightMarkers :: "nat list"
  hoverCharacter :: "Position option"
  debouncedGetHover :: "Position Debounced"
  changeListener :: "unit Debounced option"
  connectionListeners :: listeners
  editorListeners :: listeners
  documentListeners :: listeners
  tooltip :: "nat option"
  isShowingContextMenu :: bool
  documentHandlers :: listeners

subsection \<open>Editor operations\<close>

text \<open>
  CodeMirror clips the positions and the line numbers it is given to the document:
  \<open>clipLine\<close>, \<open>clipToLen\<close> and \<open>clipPos\<close> of the library, and its comparison \<open>cmp\<close> of two
  positions (\<open>a.line - b.line || a.ch - b.ch\<close>).
\<close>

definition lastLine :: "Editor \<Rightarrow> int" where
  "lastLine e = int (length (docLines e)) - 1"

definition lineLength :: "Editor \<Rightarrow> int \<Rightarrow> int" where
  "lineLength e n =
     (if 0 \<le> n \<and> n < int (length (docLines e)) then int (length (docLines e ! nat n)) else 0)"

definition clipLine :: "Editor \<Rightarrow> int \<Rightarrow> int" where
  "clipLine e n = max 0 (min n (lastLine e))"

definition clipToLen :: "Position \<Rightarrow> int \<Rightarrow> Position" where
  "clipToLen pos linelen =
     (if ch pos > linelen then \<lparr>line = line pos, ch = linelen\<rparr>
      else if ch pos < 0 then \<lparr>line = line pos, ch = 0\<rparr>
      else pos)"

definition clipPos :: "Editor \<Rightarrow> Position \<Rightarrow> Position" where
  "clipPos e pos =
     (if line pos < 0 then \<lparr>line = 0, ch = 0\<rparr>
      else if line pos > lastLine e then \<lparr>line = lastLine e, ch = lineLength e (lastLine e)\<rparr>
      else clipToLen pos (lineLength e (line pos)))"

definition cmpPos :: "Position \<Rightarrow> Position \<Rightarrow> int" where
  "cmpPos a b = (if line a - line b \<noteq> 0 then line a - line b else ch a - ch b)"

text \<open>
  \<open>markText\<close> of the library: it clips both ends, makes the marker, and attaches it to the
  document only when the clipped range is not empty and not reversed (the adapter does not
  set \<open>clearWhenEmpty\<close>). The marker is returned in both cases.
\<close>

definition markText :: "Position \<Rightarrow> Position \<Rightarrow> string \<Rightarrow> Editor \<Rightarrow> nat \<times> Editor" where
  "markText from to cls e =
     (let from' = clipPos e from; to' = clipPos e to; diff = cmpPos from' to'
      in if diff > 0 \<or> diff = 0
         then (nextMark e, e\<lparr>nextMark := Suc (nextMark e)\<rparr>)
         else (nextMark e,
               e\<lparr>marks := marks e @
                    [\<lparr>markId = nextMark e, markFrom = from', markTo = to', className = cls\<rparr>],
                 nextMark := Suc (nextMark e)\<rparr>))"

definition clearMark :: "nat \<Rightarrow> Editor \<Rightarrow> Editor" where
  "clearMark m e = e\<lparr>marks := filter (\<lambda>k. markId k \<noteq> m) (marks e)\<rparr>"

definition clearGutter :: "Editor \<Rightarrow> Editor" where
  "clearGutter e = e\<lparr>gutter := []\<rparr>"

text \<open>
  \<open>setGutterMarker\<close> of the library, for the gutter \<open>CodeMirror-lsp\<close>: the marker goes to the
  line the number is clipped to, and replaces the marker that line has.
\<close>

definition setGutterMarker :: "int \<Rightarrow> string \<Rightarrow> Editor \<Rightarrow> Editor" where
  "setGutterMarker ln title e = e\<lparr>gutter := AList.update (clipLine e ln) title (gutter e)\<rparr>"

definition scrollIntoView :: "Position \<Rightarrow> Editor \<Rightarrow> Editor" where
  "scrollIntoView pos e = e\<lparr>scrolledTo := scrolledTo e @ [pos]\<rparr>"

definition toPosition :: "LspPosition \<Rightarrow> Position" where
  "toPosition p = \<lparr>line = lspLine p, ch = character p\<rparr>"

subsection \<open>Overlay, hover marker, highlights\<close>

definition removeTooltip :: "Adapter \<Rightarrow> Adapter" where
  "removeTooltip s =
     (case tooltip s of
        None \<Rightarrow> s
      | Some t \<Rightarrow>
          s\<lparr>isShowingContextMenu := False,
            editor := (editor s)\<lparr>overlays := filter (\<lambda>ov. fst ov \<noteq> t) (overlays (editor s))\<rparr>\<rparr>)"

definition showTooltip :: "string list \<Rightarrow> Adapter \<Rightarrow> Adapter" where
  "showTooltip el s =
     (let s1 = (if isShowingContextMenu s then removeTooltip s else s);
          t = nextElement (editor s1)
      in s1\<lparr>tooltip := Some t,
            isShowingContextMenu := True,
            editor := (editor s1)\<lparr>overlays := overlays (editor s1) @ [(t, el)],
                                  nextElement := Suc t\<rparr>\<rparr>)"

definition removeSignatureWidget :: "Adapter \<Rightarrow> Adapter" where
  "removeSignatureWidget s =
     (let s1 = (case signatureWidget s of
                  None \<Rightarrow> s
                | Some w \<Rightarrow>
                    s\<lparr>signatureWidget := None,
                      editor := (editor s)\<lparr>widgets := filter (\<lambda>k. k \<noteq> w) (widgets (editor s))\<rparr>\<rparr>)
      in if tooltip s1 \<noteq> None then removeTooltip s1 else s1)"

definition removeHover :: "Adapter \<Rightarrow> Adapter" where
  "removeHover s =
     (case hoverMarker s of
        None \<Rightarrow> s
      | Some m \<Rightarrow> s\<lparr>hoverMarker := None, editor := clearMark m (editor s)\<rparr>)"

definition unhighlightRanges :: "Adapter \<Rightarrow> Adapter" where
  "unhighlightRanges s =
     s\<lparr>editor := fold clearMark (highlightMarkers s) (editor s), highlightMarkers := []\<rparr>"

definition highlightRange :: "Range \<Rightarrow> Adapter \<Rightarrow> Adapter" where
  "highlightRange item s =
     (let (m, e) = markText (toPosition (rangeStart item)) (toPosition (rangeEnd item))
                     ''CodeMirror-lsp-highlight'' (editor s)
      in s\<lparr>highlightMarkers := highlightMarkers s @ [m], editor := e\<rparr>)"

definition highlightRanges :: "Range list \<Rightarrow> Adapter \<Rightarrow> Adapter" where
  "highlightRanges items s =
     (let s1 = unhighlightRanges s
      in if items = [] then s1 else fold highlightRange items s1)"

subsection \<open>Diagnostics\<close>

definition clearDiagnostics :: "Adapter \<Rightarrow> Adapter" where
  "clearDiagnostics s =
     s\<lparr>editor := fold clearMark (markedDiagnostics s) (clearGutter (editor s)),
       markedDiagnostics := [],
       diagnosticResults := []\<rparr>"

fun findIndex :: "('a \<Rightarrow> bool) \<Rightarrow> 'a list \<Rightarrow> nat option" where
  "findIndex P [] = None"
| "findIndex P (x # xs) = (if P x then Some 0 else map_option Suc (findIndex P xs))"

text \<open>The body of the \<open>forEach\<close> of \<open>handleDiagnostic\<close>, for one diagnostic.\<close>

definition diagnosticStep :: "Diagnostic \<Rightarrow> Adapter \<Rightarrow> Adapter" where
  "diagnosticStep diagnostic s =
     (let start = toPosition (rangeStart (drange diagnostic));
          end' = toPosition (rangeEnd (drange diagnostic));
          (m, e1) = markText start end' (diagnosticMarkClassName (options s)) (editor s);
          results = diagnosticResults s;
          results' =
            (case findIndex (\<lambda>r. tokStart r = start \<and> tokEnd r = end') results of
               Some duplicateIndex \<Rightarrow>
                 results[duplicateIndex :=
                   (results ! duplicateIndex)
                     \<lparr>tokText := tokText (results ! duplicateIndex) @ [message diagnostic]\<rparr>]
             | None \<Rightarrow>
                 results @ [\<lparr>tokText = [message diagnostic], tokStart = start, tokEnd = end'\<rparr>]);
          e2 = (if enableGutterMarks (options s)
                then setGutterMarker (line start) (message diagnostic) e1 else e1)
      in s\<lparr>markedDiagnostics := markedDiagnostics s @ [m],
           diagnosticResults := results',
           editor := e2\<rparr>)"

text \<open>The coordinate pair that identifies an entry of \<open>diagnosticResults\<close>.\<close>

definition entryKey :: "'a TokenInfo \<Rightarrow> Position \<times> Position" where
  "entryKey r = (tokStart r, tokEnd r)"

definition handleDiagnostic :: "PublishDiagnosticsParams \<Rightarrow> Adapter \<Rightarrow> Adapter" where
  "handleDiagnostic response s =
     (if \<not> enableDiagnostics (options s) then s
      else
        (let s1 = clearDiagnostics s;
             s2 = s1\<lparr>editor := (editor s1)
                    \<lparr>signals := signals (editor s1) @ [(''lsp/diagnostics'', diagnostics response)]\<rparr>\<rparr>
         in fold diagnosticStep (diagnostics response) s2))"

text \<open>
  \<open>updateOptions\<close>. \<open>getFilledDefaults\<close> is declared in \<open>./types\<close>: it is the parameter
  \<open>getFilledDefaults\<close> here, from the options a caller passes to the filled options.
\<close>

definition updateOptions :: "('r \<Rightarrow> Options) \<Rightarrow> 'r \<Rightarrow> Adapter \<Rightarrow> Adapter" where
  "updateOptions getFilledDefaults opts s =
     (let s1 = s\<lparr>options := getFilledDefaults opts\<rparr>
      in if \<not> enableDiagnostics (options s1) then clearDiagnostics s1 else s1)"

subsection \<open>Signature help and go-to\<close>

definition handleSignature :: "SignatureHelp option \<Rightarrow> Adapter \<Rightarrow> error + Adapter" where
  "handleSignature result s =
     (let s1 = removeTooltip (removeSignatureWidget s)
      in if \<not> enableSignatures (options s1) then Inr s1
         else
           (case result of
              None \<Rightarrow> Inr s1
            | Some r \<Rightarrow>
                (case signatures r of
                   None \<Rightarrow> Inl TypeError
                 | Some sigs \<Rightarrow>
                     if sigs = [] then Inr s1
                     else (case token s1 of
                             None \<Rightarrow> Inr s1
                           | Some tk \<Rightarrow> Inr (showTooltip (map sigLabel sigs) s1)))))"

text \<open>
  The two array branches of \<open>handleGoTo\<close> after the filter: the ranges that are left are
  highlighted, then \<open>locations[0].range.start\<close> is read, which throws when none is left.
\<close>

definition goToRanges :: "Range list \<Rightarrow> Adapter \<Rightarrow> error + Adapter" where
  "goToRanges ranges s =
     (let s1 = highlightRanges ranges s
      in case ranges of
           [] \<Rightarrow> Inl TypeError
         | r # rs \<Rightarrow> Inr (s1\<lparr>editor := scrollIntoView (toPosition (rangeStart r)) (editor s1)\<rparr>))"

text \<open>
  \<open>handleGoTo\<close>. An empty array passes \<open>every(l => Location.is(l))\<close>, so an empty list of
  location links takes the branch of the locations.
\<close>

definition handleGoTo :: "GoToPayload \<Rightarrow> Adapter \<Rightarrow> error + Adapter" where
  "handleGoTo location s =
     (let s1 = removeTooltip s; docUri = documentUri (connection s1)
      in case location of
           NoLocation \<Rightarrow> Inr s1
         | OneLocation l \<Rightarrow>
             if locUri l \<noteq> docUri then Inr s1
             else (let s2 = highlightRanges [locRange l] s1
                   in Inr (s2\<lparr>editor :=
                              scrollIntoView (toPosition (rangeStart (locRange l))) (editor s2)\<rparr>))
         | LocationList ls \<Rightarrow>
             goToRanges (map locRange (filter (\<lambda>l. locUri l = docUri) ls)) s1
         | LocationLinkList [] \<Rightarrow> goToRanges [] s1
         | LocationLinkList (k # ks) \<Rightarrow>
             goToRanges (map targetRange (filter (\<lambda>l. targetUri l = docUri) (k # ks))) s1)"

subsection \<open>Pointer events\<close>

record Element =
  classList :: "string list"
  tagName :: string
  isBody :: bool

text \<open>
  A mouse event as the adapter reads it: its target, the chain of \<open>parentElement\<close> above the
  target (nearest first; after the last one \<open>parentElement\<close> is \<open>null\<close>), its client
  coordinates, and what the editor answers for these coordinates: \<open>coordsChar\<close> (the nearest
  position of the document), and the text of \<open>getTokenAt\<close> there.
\<close>

record MouseEvent =
  target :: Element
  ancestors :: "Element list"
  clientX :: int
  clientY :: int
  coordsChar :: Position
  tokenString :: string

text \<open>
  The position of the event lies outside a rectangle. The adapter never computes this: it
  passes the coordinates to \<open>coordsChar\<close> and looks at the target only.
\<close>

definition positionOutside :: "Rect \<Rightarrow> MouseEvent \<Rightarrow> bool" where
  "positionOutside r ev =
     (clientX ev < rectLeft r \<or> rectRight r < clientX ev \<or>
      clientY ev < rectTop r \<or> rectBottom r < clientY ev)"

text \<open>
  The target of the event is the editor's wrapper element or lies inside it: below
  \<open>document.body\<close>, the chain from the target upwards has an element of class \<open>CodeMirror\<close>.
  The \<open>mousemove\<close> listener of \<open>_addListeners\<close> is on the wrapper element, which has this
  class, so every event it is called with is of this kind.
\<close>

definition insideEditorElement :: "MouseEvent \<Rightarrow> bool" where
  "insideEditorElement ev =
     list_ex (\<lambda>el. ''CodeMirror'' \<in> set (classList el))
       (takeWhile (\<lambda>el. \<not> isBody el) (target ev # ancestors ev))"

definition isEventOnCharacter :: "MouseEvent \<Rightarrow> bool" where
  "isEventOnCharacter ev = (length (tokenString ev) \<noteq> 0)"

definition isEventOnTooltip :: "Adapter \<Rightarrow> MouseEvent \<Rightarrow> bool" where
  "isEventOnTooltip s ev =
     (if \<not> isShowingContextMenu s then False
      else if ''CodeMirror-lsp-tooltip'' \<in> set (classList (target ev)) \<or> tagName (target ev) = ''A''
      then True else False)"

text \<open>
  The loop of \<open>_isEventInsideVisible\<close> over the target and its ancestors. Reading \<open>classList\<close>
  of \<open>null\<close>, when the chain ends before \<open>document.body\<close>, throws.
\<close>

fun insideVisible :: "Element list \<Rightarrow> error + bool" where
  "insideVisible [] = Inl TypeError"
| "insideVisible (el # els) =
     (if isBody el then Inr False
      else if ''CodeMirror'' \<in> set (classList el) then Inr True
      else insideVisible els)"

definition isEventInsideVisible :: "MouseEvent \<Rightarrow> error + bool" where
  "isEventInsideVisible ev = insideVisible (target ev # ancestors ev)"

definition handleMouseLeave :: "Adapter \<Rightarrow> Adapter" where
  "handleMouseLeave s = s"

definition handleMouseOver :: "MouseEvent \<Rightarrow> Adapter \<Rightarrow> error + Adapter" where
  "handleMouseOver ev s =
     (if \<not> isEventOnCharacter ev \<or> isEventOnTooltip s ev then Inr s
      else
        (case isEventInsideVisible ev of
           Inl err \<Rightarrow> Inl err
         | Inr False \<Rightarrow> Inr (removeTooltip (removeHover s))
         | Inr True \<Rightarrow>
             (let docPosition = coordsChar ev
              in if \<not> (hoverCharacter s = Some docPosition)
                 then Inr (s\<lparr>hoverCharacter := Some docPosition,
                             debouncedGetHover := callDebounced docPosition (debouncedGetHover s)\<rparr>)
                 else Inr s)))"

text \<open>
  The function the constructor debounces into \<open>debouncedGetHover\<close>, and the moment its
  interval has passed: the waiting call, if there is one, runs.
\<close>

definition getHover :: "Position \<Rightarrow> Adapter \<Rightarrow> Adapter" where
  "getHover position s =
     (if \<not> enableDiagnostics (options s) \<and> \<not> enableHoverInfo (options s) then s
      else s\<lparr>connection := (connection s)
               \<lparr>requests := requests (connection s) @ [GetHoverTooltip position]\<rparr>\<rparr>)"

definition flushHover :: "Adapter \<Rightarrow> Adapter" where
  "flushHover s =
     (case pendingCall (debouncedGetHover s) of
        None \<Rightarrow> s
      | Some position \<Rightarrow>
          getHover position (s\<lparr>debouncedGetHover := (debouncedGetHover s)\<lparr>pendingCall := None\<rparr>\<rparr>))"

definition handleRefresh :: "Adapter \<Rightarrow> Adapter" where
  "handleRefresh s = removeTooltip (removeHover s)"

definition handleScrollLeave :: "Adapter \<Rightarrow> Adapter" where
  "handleScrollLeave s = removeTooltip (removeHover s)"

definition handleClickInside :: "Adapter \<Rightarrow> Adapter" where
  "handleClickInside s = unhighlightRanges s"

text \<open>
  The loop of \<open>_handleClickOutside\<close>: it stops at \<open>document.body\<close> and at the end of the chain.
\<close>

fun insideTooltip :: "Element list \<Rightarrow> bool" where
  "insideTooltip [] = False"
| "insideTooltip (el # els) =
     (if isBody el then False
      else if ''CodeMirror-lsp-tooltip'' \<in> set (classList el) then True
      else insideTooltip els)"

definition handleClickOutside :: "MouseEvent \<Rightarrow> Adapter \<Rightarrow> Adapter" where
  "handleClickOutside ev s =
     (if isShowingContextMenu s
      then (if insideTooltip (target ev # ancestors ev) then s else removeTooltip s)
      else s)"

subsection \<open>Setup and teardown\<close>

definition onEditor :: "string \<Rightarrow> handler \<Rightarrow> Adapter \<Rightarrow> Adapter" where
  "onEditor ev h s =
     s\<lparr>editor := (editor s)\<lparr>editorHandlers := addListener ev h (editorHandlers (editor s))\<rparr>\<rparr>"

definition offEditor :: "string \<Rightarrow> handler option \<Rightarrow> Adapter \<Rightarrow> Adapter" where
  "offEditor ev h s =
     s\<lparr>editor := (editor s)\<lparr>editorHandlers := removeListener ev h (editorHandlers (editor s))\<rparr>\<rparr>"

definition onWrapper :: "string \<Rightarrow> handler \<Rightarrow> Adapter \<Rightarrow> Adapter" where
  "onWrapper ev h s =
     s\<lparr>editor := (editor s)\<lparr>wrapperHandlers := addListener ev h (wrapperHandlers (editor s))\<rparr>\<rparr>"

definition offWrapper :: "string \<Rightarrow> handler option \<Rightarrow> Adapter \<Rightarrow> Adapter" where
  "offWrapper ev h s =
     s\<lparr>editor := (editor s)\<lparr>wrapperHandlers := removeListener ev h (wrapperHandlers (editor s))\<rparr>\<rparr>"

definition onConnection :: "string \<Rightarrow> handler \<Rightarrow> Adapter \<Rightarrow> Adapter" where
  "onConnection ev h s =
     s\<lparr>connection := (connection s)
          \<lparr>connectionHandlers := addListener ev h (connectionHandlers (connection s))\<rparr>\<rparr>"

definition offConnection :: "string \<Rightarrow> handler option \<Rightarrow> Adapter \<Rightarrow> Adapter" where
  "offConnection ev h s =
     s\<lparr>connection := (connection s)
          \<lparr>connectionHandlers := removeListener ev h (connectionHandlers (connection s))\<rparr>\<rparr>"

definition onDocument :: "string \<Rightarrow> handler \<Rightarrow> Adapter \<Rightarrow> Adapter" where
  "onDocument ev h s = s\<lparr>documentHandlers := addListener ev h (documentHandlers s)\<rparr>"

definition offDocument :: "string \<Rightarrow> handler option \<Rightarrow> Adapter \<Rightarrow> Adapter" where
  "offDocument ev h s = s\<lparr>documentHandlers := removeListener ev h (documentHandlers s)\<rparr>"

text \<open>
  The listener maps are objects: an assignment sets a key, and \<open>Object.keys\<close> lists the
  keys in the order they were set.
\<close>

definition setEditorListener :: "string \<Rightarrow> handler \<Rightarrow> Adapter \<Rightarrow> Adapter" where
  "setEditorListener key h s = s\<lparr>editorListeners := AList.update key h (editorListeners s)\<rparr>"

definition setDocumentListener :: "string \<Rightarrow> handler \<Rightarrow> Adapter \<Rightarrow> Adapter" where
  "setDocumentListener key h s =
     s\<lparr>documentListeners := AList.update key h (documentListeners s)\<rparr>"

text \<open>\<open>Object.keys(m).forEach(key => f(key, m[key]))\<close>, for a function that leaves \<open>m\<close> as it is.\<close>

definition forEachKey ::
  "listeners \<Rightarrow> (string \<Rightarrow> handler option \<Rightarrow> Adapter \<Rightarrow> Adapter) \<Rightarrow> Adapter \<Rightarrow> Adapter" where
  "forEachKey m f s = fold (\<lambda>key. f key (map_of m key)) (map fst m) s"

text \<open>The statements of a method body, run one after the other.\<close>

definition inOrder :: "('s \<Rightarrow> 's) list \<Rightarrow> 's \<Rightarrow> 's" where
  "inOrder statements s = fold (\<lambda>statement. statement) statements s"

text \<open>\<open>_addListeners\<close>, statement by statement.\<close>

definition addListeners :: "Adapter \<Rightarrow> Adapter" where
  "addListeners =
     inOrder
       [\<lambda>s. s\<lparr>changeListener := Some (debounce (debounceSuggestionsWhileTyping (options s)))\<rparr>,
        onEditor ''change'' HandleChange,
        setEditorListener ''change'' HandleChange,
        \<lambda>s. s\<lparr>connectionListeners :=
                [(''hover'', HandleHover), (''completion'', HandleCompletion),
                 (''signature'', HandleSignature), (''diagnostic'', HandleDiagnostic)]\<rparr>,
        \<lambda>s. forEachKey (connectionListeners s)
               (\<lambda>key h. case h of None \<Rightarrow> (\<lambda>t. t) | Some f \<Rightarrow> onConnection key f) s,
        onEditor ''refresh'' HandleRefresh,
        setEditorListener ''refresh'' HandleRefresh,
        onWrapper ''mouseleave'' HandleMouseLeave,
        setEditorListener ''mouseleave'' HandleMouseLeave,
        onEditor ''scroll'' HandleScrollLeave,
        setEditorListener ''scroll'' HandleScrollLeave,
        onWrapper ''mousemove'' HandleMouseOver,
        setEditorListener ''mouseover'' HandleMouseOver,
        \<lambda>s. if enableContextMenu (options s)
             then inOrder [onWrapper ''contextmenu'' HandleRightClick,
                           setEditorListener ''contextmenu'' HandleRightClick] s
             else s,
        onDocument ''click'' HandleClickOutside,
        setDocumentListener ''clickOutside'' HandleClickOutside,
        onEditor ''focus'' HandleClickInside,
        setDocumentListener ''clickInside'' HandleClickInside]"

text \<open>
  The constructor. \<open>doc\<close> are the listeners the page's \<open>document\<close> has when the adapter is
  created. The base class \<open>IEditorAdapter\<close> is declared in \<open>./types\<close>; the adapter reads no
  field that its constructor would set.
\<close>

definition constructor ::
  "('r \<Rightarrow> Options) \<Rightarrow> Connection \<Rightarrow> 'r \<Rightarrow> Editor \<Rightarrow> CompletionItem list \<Rightarrow> listeners \<Rightarrow> Adapter" where
  "constructor getFilledDefaults conn opts ed snips doc =
     addListeners
       \<lparr>options = getFilledDefaults opts,
        editor = ed,
        connection = conn,
        snippets = snips,
        hoverMarker = None,
        signatureWidget = None,
        token = None,
        markedDiagnostics = [],
        diagnosticResults = [],
        highlightMarkers = [],
        hoverCharacter = None,
        debouncedGetHover = debounce (quickSuggestionsDelay (getFilledDefaults opts)),
        changeListener = None,
        connectionListeners = [],
        editorListeners = [],
        documentListeners = [],
        tooltip = None,
        isShowingContextMenu = False,
        documentHandlers = doc\<rparr>"

text \<open>\<open>remove\<close>, statement by statement.\<close>

definition remove :: "Adapter \<Rightarrow> Adapter" where
  "remove =
     inOrder
       [removeSignatureWidget,
        removeHover,
        removeTooltip,
        clearDiagnostics,
        \<lambda>s. s\<lparr>editor := (editor s)\<lparr>hintLists := []\<rparr>\<rparr>,
        \<lambda>s. offEditor ''change'' (map_of (editorListeners s) ''change'') s,
        \<lambda>s. offEditor ''cursorActivity'' (map_of (editorListeners s) ''cursorActivity'') s,
        \<lambda>s. offWrapper ''mousemove'' (map_of (editorListeners s) ''mouseover'') s,
        \<lambda>s. if enableContextMenu (options s)
             then offWrapper ''contextmenu'' (map_of (editorListeners s) ''contextmenu'') s
             else s,
        \<lambda>s. forEachKey (connectionListeners s) offConnection s,
        \<lambda>s. forEachKey (documentListeners s) offDocument s]"

section \<open>Example states\<close>

text \<open>
  An editor and a connection that no adapter has been attached to, and a set of options. The
  editor holds the one line \<open>.myClass {}\<close>, and its wrapper element is 20 pixels from the left
  and from the top of the page.
\<close>

definition freshEditor :: Editor where
  "freshEditor =
     \<lparr>docLines = [''.myClass {}''],
      wrapperRect = \<lparr>rectLeft = 20, rectTop = 20, rectRight = 820, rectBottom = 320\<rparr>,
      marks = [], nextMark = 0, gutter = [], widgets = [], scrolledTo = [], signals = [],
      editorHandlers = [], wrapperHandlers = [], overlays = [], nextElement = 0, hintLists = []\<rparr>"

definition freshConnection :: "string \<Rightarrow> Connection" where
  "freshConnection u = \<lparr>documentUri = u, requests = [], connectionHandlers = []\<rparr>"

definition exampleOptions :: Options where
  "exampleOptions =
     \<lparr>enableHoverInfo = True, enableDiagnostics = True, enableSignatures = True,
      enableGutterMarks = True, enableContextMenu = True, suggest = True,
      debounceSuggestionsWhileTyping = 200, quickSuggestionsDelay = 200,
      diagnosticMarkClassName = ''CodeMirror-lsp-diagnostic''\<rparr>"

text \<open>An adapter as the constructor leaves it, for the document \<open>file:///a.ts\<close>.\<close>

definition exampleAdapter :: Adapter where
  "exampleAdapter =
     constructor id (freshConnection ''file:///a.ts'') exampleOptions freshEditor [] []"

definition mkRange :: "int \<Rightarrow> int \<Rightarrow> int \<Rightarrow> int \<Rightarrow> Range" where
  "mkRange l1 c1 l2 c2 =
     \<lparr>rangeStart = \<lparr>lspLine = l1, character = c1\<rparr>, rangeEnd = \<lparr>lspLine = l2, character = c2\<rparr>\<rparr>"

text \<open>
  An adapter that shows a hover marker (mark 0) and a tooltip (element 0), and an element of
  the page outside the editor, directly under \<open>document.body\<close>.
\<close>

definition hoveringAdapter :: Adapter where
  "hoveringAdapter =
     exampleAdapter
       \<lparr>hoverMarker := Some 0,
        tooltip := Some 0,
        isShowingContextMenu := True,
        hoverCharacter := Some \<lparr>line = 0, ch = 1\<rparr>,
        editor := (editor exampleAdapter)
          \<lparr>marks := [\<lparr>markId = 0, markFrom = \<lparr>line = 0, ch = 0\<rparr>, markTo = \<lparr>line = 0, ch = 5\<rparr>,
                      className = ''CodeMirror-lsp-hover''\<rparr>],
           nextMark := 1,
           overlays := [(0, [''hello: string''])],
           nextElement := 1\<rparr>\<rparr>"

definition bodyElement :: Element where
  "bodyElement = \<lparr>classList = [], tagName = ''BODY'', isBody = True\<rparr>"

definition outsideElement :: Element where
  "outsideElement = \<lparr>classList = [''sidebar''], tagName = ''DIV'', isBody = False\<rparr>"

text \<open>
  The wrapper element of the editor, and the event of the repository's test for a pointer
  outside the visible code area: a \<open>mousemove\<close> dispatched on the wrapper element with the
  client coordinates (0, 0), for which the editor answers the start of the document, where
  no token ends.
\<close>

definition wrapperElement :: Element where
  "wrapperElement =
     \<lparr>classList = [''CodeMirror'', ''cm-s-default''], tagName = ''DIV'', isBody = False\<rparr>"

definition containerElement :: Element where
  "containerElement = \<lparr>classList = [], tagName = ''DIV'', isBody = False\<rparr>"

definition outsideMove :: MouseEvent where
  "outsideMove =
     \<lparr>target = wrapperElement, ancestors = [containerElement, bodyElement],
      clientX = 0, clientY = 0, coordsChar = \<lparr>line = 0, ch = 0\<rparr>, tokenString = []\<rparr>"

text \<open>
  A \<open>mousemove\<close> on the wrapper element whose coordinates lie to the right of the editor, for
  which the editor answers the end of the line, where the token \<open>}\<close> ends.
\<close>

definition outsideMoveOverToken :: MouseEvent where
  "outsideMoveOverToken =
     \<lparr>target = wrapperElement, ancestors = [containerElement, bodyElement],
      clientX = 5000, clientY = 30, coordsChar = \<lparr>line = 0, ch = 11\<rparr>, tokenString = ''}''\<rparr>"

text \<open>
  A call of \<open>handleMouseOver\<close> with an event whose target is outside the editor, over a token:
  no listener of the adapter delivers it.
\<close>

definition foreignMove :: MouseEvent where
  "foreignMove =
     \<lparr>target = outsideElement, ancestors = [bodyElement],
      clientX = 900, clientY = 30, coordsChar = \<lparr>line = 0, ch = 11\<rparr>, tokenString = ''}''\<rparr>"

text \<open>
  A publication of two diagnostics over the same range, and an adapter that shows them while
  its options have diagnostics switched off.
\<close>

definition exampleDiagnostics :: PublishDiagnosticsParams where
  "exampleDiagnostics =
     \<lparr>uri = ''file:///a.ts'',
      diagnostics =
        [\<lparr>drange = mkRange 0 0 0 7, message = ''Do not use empty rulesets''\<rparr>,
         \<lparr>drange = mkRange 0 0 0 7, message = ''Unknown property''\<rparr>]\<rparr>"

definition disabledAdapter :: Adapter where
  "disabledAdapter =
     (handleDiagnostic exampleDiagnostics exampleAdapter)
       \<lparr>options := exampleOptions\<lparr>enableDiagnostics := False\<rparr>\<rparr>"

section \<open>The completion ranker: properties\<close>

declare splitNonWord.simps [simp del]

text \<open>The first piece of the split is the longest prefix of word characters.\<close>

lemma firstWord_takeWhile: "firstWord t = takeWhile isWordChar t"
  unfolding firstWord_def by (subst splitNonWord.simps) (simp add: Let_def)

lemma firstWord_no_nonword: "\<not> testNonWord (firstWord t)"
  unfolding firstWord_takeWhile testNonWord_def isNonWordChar_def list_ex_iff
  by (auto dest: set_takeWhileD)

lemma insertBy_partition:
  assumes "list_all m A" "list_all (\<lambda>y. \<not> m y) B"
    and "\<And>y. m x \<Longrightarrow> cmp x y \<le> 0"
    and "\<And>y. \<not> m x \<Longrightarrow> m y \<Longrightarrow> \<not> cmp x y \<le> 0"
    and "\<And>y. \<not> m x \<Longrightarrow> \<not> m y \<Longrightarrow> cmp x y \<le> 0"
  shows "insertBy cmp x (A @ B) = (if m x then x # A @ B else A @ x # B)"
  using assms(1)
proof (induction A)
  case Nil
  then show ?case using assms(2-) by (cases B) auto
next
  case (Cons a A)
  then show ?case using assms(3-) by auto
qed

lemma sortBy_partition:
  assumes "\<And>x y. m x \<Longrightarrow> cmp x y \<le> 0"
    and "\<And>x y. \<not> m x \<Longrightarrow> m y \<Longrightarrow> \<not> cmp x y \<le> 0"
    and "\<And>x y. \<not> m x \<Longrightarrow> \<not> m y \<Longrightarrow> cmp x y \<le> 0"
  shows "sortBy cmp xs = filter m xs @ filter (\<lambda>y. \<not> m y) xs"
proof (induction xs)
  case Nil
  then show ?case by (simp add: sortBy_def)
next
  case (Cons x xs)
  have "sortBy cmp (x # xs) = insertBy cmp x (sortBy cmp xs)" by (simp add: sortBy_def)
  also have "\<dots> = insertBy cmp x (filter m xs @ filter (\<lambda>y. \<not> m y) xs)" by (simp add: Cons)
  also have "\<dots> = (if m x then x # filter m xs @ filter (\<lambda>y. \<not> m y) xs
                     else filter m xs @ x # filter (\<lambda>y. \<not> m y) xs)"
    by (rule insertBy_partition) (auto simp: list_all_iff assms)
  finally show ?case by simp
qed

lemma sortBy_compareItems:
  "sortBy (compareItems word) xs =
     filter (\<lambda>i. startsWith (toLowerCase (label i)) word) xs @
     filter (\<lambda>i. \<not> startsWith (toLowerCase (label i)) word) xs"
  by (rule sortBy_partition) (auto simp: compareItems_def Let_def)

lemma getFilteredCompletions_partition:
  "getFilteredCompletions t (Some its) b =
     (let word = toLowerCase (firstWord t); kept = filter (keepItem word b) its
      in filter (\<lambda>i. startsWith (toLowerCase (label i)) word) kept @
         filter (\<lambda>i. \<not> startsWith (toLowerCase (label i)) word) kept)"
  by (simp add: getFilteredCompletions_def firstWord_no_nonword sortBy_compareItems Let_def)

lemma keepItem_label_only:
  "filterText i = None \<Longrightarrow>
   keepItem word False i =
     (startsWith (toLowerCase (label i)) word \<and> toLowerCase (label i) \<noteq> word)"
  by (auto simp: keepItem_def Let_def)

lemma filter_label_only:
  "filter (\<lambda>i. startsWith (toLowerCase (label i)) w)
     (filter (\<lambda>i. startsWith (toLowerCase (label i)) w \<and> toLowerCase (label i) \<noteq> w) xs) =
   filter (\<lambda>i. startsWith (toLowerCase (label i)) w \<and> toLowerCase (label i) \<noteq> w) xs"
  "filter (\<lambda>i. \<not> startsWith (toLowerCase (label i)) w)
     (filter (\<lambda>i. startsWith (toLowerCase (label i)) w \<and> toLowerCase (label i) \<noteq> w) xs) = []"
  by (induction xs) auto

lemma getFilteredCompletions_label_only:
  assumes "list_all (\<lambda>i. filterText i = None) its"
  shows "getFilteredCompletions t (Some its) False =
     filter (\<lambda>i. startsWith (toLowerCase (label i)) (toLowerCase (firstWord t)) \<and>
                 toLowerCase (label i) \<noteq> toLowerCase (firstWord t)) its"
proof -
  let ?w = "toLowerCase (firstWord t)"
  have k: "filter (keepItem ?w False) its =
      filter (\<lambda>i. startsWith (toLowerCase (label i)) ?w \<and> toLowerCase (label i) \<noteq> ?w) its"
    using assms by (intro filter_cong refl) (auto simp: list_all_iff keepItem_label_only)
  show ?thesis
    unfolding getFilteredCompletions_partition Let_def k filter_label_only by simp
qed

lemma lower_le: "toLowerCase (firstWord ''le'') = ''le''"
  by code_simp

lemma set_getFilteredCompletions:
  "set (getFilteredCompletions t (Some its) b) =
     {i \<in> set its. keepItem (toLowerCase (firstWord t)) b i}"
  unfolding getFilteredCompletions_partition Let_def by auto

lemma keepItem_equal_label:
  "toLowerCase (label i) = w \<Longrightarrow>
   keepItem w False i =
     (case filterText i of None \<Rightarrow> False | Some f \<Rightarrow> f \<noteq> [] \<and> startsWith (toLowerCase f) w)"
  by (auto simp: keepItem_def Let_def split: option.splits)

text \<open>
  Counterexample to claim C7 as stated. A candidate with the label \<open>le\<close> and the filter text
  \<open>le\<close> is returned for the prefix \<open>le\<close> with whole-word matching disabled: the filter text is
  tested before the label.
\<close>

theorem equal_label_kept_for_filter_text:
  "toLowerCase (label \<lparr>label = ''le'', filterText = Some ''le''\<rparr>) = ''le''
   \<and> getFilteredCompletions ''le'' (Some [\<lparr>label = ''le'', filterText = Some ''le''\<rparr>]) False =
       [\<lparr>label = ''le'', filterText = Some ''le''\<rparr>]"
  by code_simp

text \<open>
  Claim C7, amended. For the prefix \<open>le\<close> and the candidates labelled \<open>length\<close>, \<open>left\<close>,
  \<open>map\<close>, with whole-word matching disabled, \<open>_getFilteredCompletions\<close> returns the candidates
  \<open>length\<close> and \<open>left\<close>, in this order. For every list of candidates, the kept ones whose
  lowercased label starts with \<open>le\<close> come before the kept ones whose label does not (these are
  kept for their filter text). A candidate whose label equals the typed word up to case is
  returned exactly when it has a non-empty filter text that starts with \<open>le\<close> up to case. So
  for candidates without filter text the result is, in their order, exactly those whose
  lowercased label starts with \<open>le\<close> and is not \<open>le\<close> itself.
\<close>

theorem completion_ranking_le:
  "getFilteredCompletions ''le''
     (Some [\<lparr>label = ''length'', filterText = None\<rparr>, \<lparr>label = ''left'', filterText = None\<rparr>,
            \<lparr>label = ''map'', filterText = None\<rparr>]) False =
     [\<lparr>label = ''length'', filterText = None\<rparr>, \<lparr>label = ''left'', filterText = None\<rparr>]
   \<and> getFilteredCompletions ''le'' (Some its) False =
        filter (\<lambda>i. startsWith (toLowerCase (label i)) ''le'') (filter (keepItem ''le'' False) its) @
        filter (\<lambda>i. \<not> startsWith (toLowerCase (label i)) ''le'') (filter (keepItem ''le'' False) its)
   \<and> (\<forall>i \<in> set its. toLowerCase (label i) = ''le'' \<longrightarrow>
        (i \<in> set (getFilteredCompletions ''le'' (Some its) False) \<longleftrightarrow>
         (case filterText i of
            None \<Rightarrow> False
          | Some f \<Rightarrow> f \<noteq> [] \<and> startsWith (toLowerCase f) ''le'')))
   \<and> (list_all (\<lambda>i. filterText i = None) its \<longrightarrow>
        getFilteredCompletions ''le'' (Some its) False =
          filter (\<lambda>i. startsWith (toLowerCase (label i)) ''le'' \<and> toLowerCase (label i) \<noteq> ''le'') its)"
proof (intro conjI impI ballI)
  show "getFilteredCompletions ''le''
     (Some [\<lparr>label = ''length'', filterText = None\<rparr>, \<lparr>label = ''left'', filterText = None\<rparr>,
            \<lparr>label = ''map'', filterText = None\<rparr>]) False =
     [\<lparr>label = ''length'', filterText = None\<rparr>, \<lparr>label = ''left'', filterText = None\<rparr>]"
    by code_simp
next
  show "getFilteredCompletions ''le'' (Some its) False =
        filter (\<lambda>i. startsWith (toLowerCase (label i)) ''le'') (filter (keepItem ''le'' False) its) @
        filter (\<lambda>i. \<not> startsWith (toLowerCase (label i)) ''le'') (filter (keepItem ''le'' False) its)"
    using getFilteredCompletions_partition [of "''le''" its False] by (simp add: lower_le Let_def)
next
  fix i assume "i \<in> set its" and "toLowerCase (label i) = ''le''"
  then show "i \<in> set (getFilteredCompletions ''le'' (Some its) False) \<longleftrightarrow>
         (case filterText i of
            None \<Rightarrow> False
          | Some f \<Rightarrow> f \<noteq> [] \<and> startsWith (toLowerCase f) ''le'')"
    by (simp add: set_getFilteredCompletions lower_le keepItem_equal_label)
next
  assume "list_all (\<lambda>i. filterText i = None) its"
  then show "getFilteredCompletions ''le'' (Some its) False =
          filter (\<lambda>i. startsWith (toLowerCase (label i)) ''le'' \<and> toLowerCase (label i) \<noteq> ''le'') its"
    using getFilteredCompletions_label_only [of its "''le''"] by (simp add: lower_le)
qed

lemma ranking_example_facts:
  "toLowerCase (label \<lparr>label = ''LE'', filterText = None\<rparr>) = ''le''"
  "filter (\<lambda>i. startsWith (toLowerCase (label i)) ''le'' \<and> toLowerCase (label i) \<noteq> ''le'')
     [\<lparr>label = ''map'', filterText = None\<rparr>, \<lparr>label = ''LE'', filterText = None\<rparr>,
      \<lparr>label = ''Length'', filterText = None\<rparr>, \<lparr>label = ''le'', filterText = None\<rparr>,
      \<lparr>label = ''left'', filterText = None\<rparr>]
     = [\<lparr>label = ''Length'', filterText = None\<rparr>, \<lparr>label = ''left'', filterText = None\<rparr>]"
  by code_simp+

text \<open>
  The amended claim C7 at five candidates without filter text: the ones labelled \<open>LE\<close> and
  \<open>le\<close> are left out, \<open>Length\<close> and \<open>left\<close> are returned.
\<close>

theorem completion_ranking_le_witness:
  "list_all (\<lambda>i. filterText i = None)
     [\<lparr>label = ''map'', filterText = None\<rparr>, \<lparr>label = ''LE'', filterText = None\<rparr>,
      \<lparr>label = ''Length'', filterText = None\<rparr>, \<lparr>label = ''le'', filterText = None\<rparr>,
      \<lparr>label = ''left'', filterText = None\<rparr>]
   \<and> getFilteredCompletions ''le''
       (Some [\<lparr>label = ''map'', filterText = None\<rparr>, \<lparr>label = ''LE'', filterText = None\<rparr>,
              \<lparr>label = ''Length'', filterText = None\<rparr>, \<lparr>label = ''le'', filterText = None\<rparr>,
              \<lparr>label = ''left'', filterText = None\<rparr>]) False =
       [\<lparr>label = ''Length'', filterText = None\<rparr>, \<lparr>label = ''left'', filterText = None\<rparr>]
   \<and> \<lparr>label = ''LE'', filterText = None\<rparr> \<in> set
       [\<lparr>label = ''map'', filterText = None\<rparr>, \<lparr>label = ''LE'', filterText = None\<rparr>,
        \<lparr>label = ''Length'', filterText = None\<rparr>, \<lparr>label = ''le'', filterText = None\<rparr>,
        \<lparr>label = ''left'', filterText = None\<rparr>]
   \<and> toLowerCase (label \<lparr>label = ''LE'', filterText = None\<rparr>) = ''le''
   \<and> \<lparr>label = ''LE'', filterText = None\<rparr> \<notin> set (getFilteredCompletions ''le''
       (Some [\<lparr>label = ''map'', filterText = None\<rparr>, \<lparr>label = ''LE'', filterText = None\<rparr>,
              \<lparr>label = ''Length'', filterText = None\<rparr>, \<lparr>label = ''le'', filterText = None\<rparr>,
              \<lparr>label = ''left'', filterText = None\<rparr>]) False)"
proof -
  let ?its = "[\<lparr>label = ''map'', filterText = None\<rparr>, \<lparr>label = ''LE'', filterText = None\<rparr>,
      \<lparr>label = ''Length'', filterText = None\<rparr>, \<lparr>label = ''le'', filterText = None\<rparr>,
      \<lparr>label = ''left'', filterText = None\<rparr>]"
  note ranking = completion_ranking_le [of ?its]
  note equal_label = ranking [THEN conjunct2, THEN conjunct2, THEN conjunct1, rule_format]
  note label_only = ranking [THEN conjunct2, THEN conjunct2, THEN conjunct2, rule_format]
  have h: "list_all (\<lambda>i. filterText i = None) ?its" by simp
  have r: "getFilteredCompletions ''le'' (Some ?its) False =
      [\<lparr>label = ''Length'', filterText = None\<rparr>, \<lparr>label = ''left'', filterText = None\<rparr>]"
    using label_only [OF h] ranking_example_facts(2) by (rule trans)
  have m: "\<lparr>label = ''LE'', filterText = None\<rparr> \<in> set ?its" by simp
  have n: "\<lparr>label = ''LE'', filterText = None\<rparr> \<notin>
      set (getFilteredCompletions ''le'' (Some ?its) False)"
    using equal_label [OF m ranking_example_facts(1)] by simp
  from h r m n ranking_example_facts(1) show ?thesis by (intro conjI)
qed

lemma toLowerCase_Nil_iff: "toLowerCase l = [] \<longleftrightarrow> l = []"
  by (simp add: toLowerCase_def)

lemma keepItem_empty_word:
  "keepItem [] b i =
     (b \<or> label i \<noteq> [] \<or> (case filterText i of None \<Rightarrow> False | Some f \<Rightarrow> f \<noteq> []))"
  by (cases "filterText i") (auto simp: keepItem_def Let_def toLowerCase_Nil_iff)

lemma firstWord_nonword_start: "isNonWordChar c \<Longrightarrow> firstWord (c # r) = []"
  by (simp add: firstWord_takeWhile isNonWordChar_def)

text \<open>
  Counterexample to claim C8 as stated. The first word of the prefix \<open>.\<close> is empty, the test
  for a non-word character fails on it, and with the candidates \<open>length\<close> and \<open>map\<close> the
  function returns both: the result is not empty.
\<close>

theorem punctuation_prefix_keeps_candidates:
  "firstWord ''.'' = [] \<and> \<not> testNonWord (firstWord ''.'')
   \<and> getFilteredCompletions ''.''
       (Some [\<lparr>label = ''length'', filterText = None\<rparr>, \<lparr>label = ''map'', filterText = None\<rparr>]) False =
       [\<lparr>label = ''length'', filterText = None\<rparr>, \<lparr>label = ''map'', filterText = None\<rparr>]
   \<and> getFilteredCompletions ''.''
       (Some [\<lparr>label = ''length'', filterText = None\<rparr>, \<lparr>label = ''map'', filterText = None\<rparr>]) False \<noteq> []"
  by code_simp

text \<open>
  Claim C8, amended. \<open>_getFilteredCompletions\<close> returns the empty list when the candidate list
  is absent. The first word of a prefix never holds a non-word character, so the punctuation
  test never fires. For a prefix that starts with a non-word character (such as \<open>.\<close> or
  \<open>(\<close>) the first word is empty and the function returns, in their order, every candidate
  that has a non-empty filter text or a non-empty label (every candidate when whole-word
  matching is enabled).
\<close>

theorem filtered_completions_empty_cases:
  "getFilteredCompletions t None b = []
   \<and> \<not> testNonWord (firstWord t)
   \<and> (isNonWordChar c \<longrightarrow>
        firstWord (c # r) = [] \<and>
        getFilteredCompletions (c # r) (Some its) b =
          filter (\<lambda>i. b \<or> label i \<noteq> [] \<or> (case filterText i of None \<Rightarrow> False | Some f \<Rightarrow> f \<noteq> [])) its)"
proof (intro conjI impI)
  show "getFilteredCompletions t None b = []"
    by (simp add: getFilteredCompletions_def)
  show "\<not> testNonWord (firstWord t)"
    by (rule firstWord_no_nonword)
next
  assume c: "isNonWordChar c"
  then show fw: "firstWord (c # r) = []"
    by (rule firstWord_nonword_start)
  have "getFilteredCompletions (c # r) (Some its) b = filter (keepItem [] b) its"
    unfolding getFilteredCompletions_partition Let_def fw
    by (simp add: toLowerCase_def)
  moreover have "keepItem [] b =
      (\<lambda>i. b \<or> label i \<noteq> [] \<or> (case filterText i of None \<Rightarrow> False | Some f \<Rightarrow> f \<noteq> []))"
    by (rule ext) (rule keepItem_empty_word)
  ultimately show "getFilteredCompletions (c # r) (Some its) b =
      filter (\<lambda>i. b \<or> label i \<noteq> [] \<or> (case filterText i of None \<Rightarrow> False | Some f \<Rightarrow> f \<noteq> [])) its"
    by (simp only:)
qed

lemma paren_nonword: "isNonWordChar CHR ''(''"
  by code_simp

text \<open>
  The amended claim C8 at the prefix \<open>(\<close>: the candidate with neither label nor filter text
  is the only one left out.
\<close>

theorem filtered_completions_empty_cases_witness:
  "isNonWordChar CHR ''(''
   \<and> firstWord ''('' = []
   \<and> getFilteredCompletions ''(''
       (Some [\<lparr>label = ''log'', filterText = None\<rparr>, \<lparr>label = [], filterText = None\<rparr>,
              \<lparr>label = [], filterText = Some ''x''\<rparr>]) False =
       [\<lparr>label = ''log'', filterText = None\<rparr>, \<lparr>label = [], filterText = Some ''x''\<rparr>]"
  using filtered_completions_empty_cases
    [of "''ab''" False "CHR ''(''" "[]"
        "[\<lparr>label = ''log'', filterText = None\<rparr>, \<lparr>label = [], filterText = None\<rparr>,
          \<lparr>label = [], filterText = Some ''x''\<rparr>]"]
    paren_nonword
  by simp

section \<open>The token extractor: properties\<close>

text \<open>
  Claim C4. For the line \<open>a.bcd\<close>, the cursor at \<open>ch = 3\<close> and the split characters \<open>{.}\<close>,
  \<open>_getTokenEndingAtPosition\<close> returns the text \<open>bcd\<close> with start \<open>{0,2}\<close> and end \<open>{0,3}\<close>: the
  second argument of \<open>substr\<close> is a length, so the text runs past the cursor, where the
  claim has the text \<open>b\<close>, ending at the cursor.
\<close>

theorem token_text_runs_past_cursor:
  "getTokenEndingAtPosition ''a.bcd'' \<lparr>line = 0, ch = 3\<rparr> [''.''] =
     Inr \<lparr>tokText = ''bcd'', tokStart = \<lparr>line = 0, ch = 2\<rparr>, tokEnd = \<lparr>line = 0, ch = 3\<rparr>\<rparr>"
  by code_simp

text \<open>The two examples of the specification, where the cursor is at the end of the word.\<close>

lemma token_examples:
  "getTokenEndingAtPosition ''a.b'' \<lparr>line = 0, ch = 3\<rparr> [''.''] =
     Inr \<lparr>tokText = ''b'', tokStart = \<lparr>line = 0, ch = 2\<rparr>, tokEnd = \<lparr>line = 0, ch = 3\<rparr>\<rparr>"
  "getTokenEndingAtPosition ''a.b'' \<lparr>line = 0, ch = 2\<rparr> [''.''] =
     Inr \<lparr>tokText = ''.'', tokStart = \<lparr>line = 0, ch = 1\<rparr>, tokEnd = \<lparr>line = 0, ch = 2\<rparr>\<rparr>"
  by code_simp+

section \<open>Diagnostics: properties\<close>

lemma fold_clearMark:
  "fold clearMark ms e = e\<lparr>marks := filter (\<lambda>k. markId k \<notin> set ms) (marks e)\<rparr>"
proof (induction ms arbitrary: e)
  case Nil
  show ?case by simp
next
  case (Cons m ms)
  have "fold clearMark (m # ms) e = fold clearMark ms (clearMark m e)"
    by simp
  also have "\<dots> = (clearMark m e)
      \<lparr>marks := filter (\<lambda>k. markId k \<notin> set ms) (marks (clearMark m e))\<rparr>"
    by (rule Cons)
  also have "\<dots> = e\<lparr>marks := filter (\<lambda>k. markId k \<notin> set (m # ms)) (marks e)\<rparr>"
    by (simp add: clearMark_def conj_commute)
  finally show ?case .
qed

lemma findIndex_None: "findIndex P xs = None \<Longrightarrow> x \<in> set xs \<Longrightarrow> \<not> P x"
  by (induction xs) (auto split: if_splits)

lemma findIndex_Some: "findIndex P xs = Some i \<Longrightarrow> i < length xs \<and> P (xs ! i)"
  by (induction xs arbitrary: i) (auto split: if_splits)

lemma diagnosticStep_distinct:
  assumes "distinct (map entryKey (diagnosticResults s))"
  shows "distinct (map entryKey (diagnosticResults (diagnosticStep d s)))"
proof -
  let ?st = "toPosition (rangeStart (drange d))" and ?en = "toPosition (rangeEnd (drange d))"
  let ?P = "\<lambda>r :: string list TokenInfo. tokStart r = ?st \<and> tokEnd r = ?en"
  show ?thesis
  proof (cases "findIndex ?P (diagnosticResults s)")
    case None
    then have "(?st, ?en) \<notin> set (map entryKey (diagnosticResults s))"
      by (auto simp: entryKey_def dest: findIndex_None)
    with assms None show ?thesis
      by (simp add: diagnosticStep_def Let_def markText_def entryKey_def split: prod.splits)
  next
    case (Some i)
    then have i: "i < length (diagnosticResults s)" by (auto dest: findIndex_Some)
    have "map entryKey ((diagnosticResults s)[i := (diagnosticResults s ! i)
             \<lparr>tokText := tokText (diagnosticResults s ! i) @ [message d]\<rparr>]) =
          map entryKey (diagnosticResults s)"
      using i by (simp add: map_update entryKey_def list_update_same_conv)
    with assms Some show ?thesis
      by (simp add: diagnosticStep_def Let_def markText_def split: prod.splits)
  qed
qed

lemma fold_diagnosticStep_distinct:
  "distinct (map entryKey (diagnosticResults s)) \<Longrightarrow>
   distinct (map entryKey (diagnosticResults (fold diagnosticStep ds s)))"
  by (induction ds arbitrary: s) (simp_all add: diagnosticStep_distinct)

lemma handleDiagnostic_distinct:
  "enableDiagnostics (options s) \<or> distinct (map entryKey (diagnosticResults s)) \<Longrightarrow>
   distinct (map entryKey (diagnosticResults (handleDiagnostic response s)))"
  by (auto simp: handleDiagnostic_def Let_def clearDiagnostics_def
      intro!: fold_diagnosticStep_distinct)

text \<open>
  Clipping reads the lines of the document only, and a diagnostic step leaves them as they
  are.
\<close>

lemma clip_docLines:
  "docLines e' = docLines e \<Longrightarrow> clipPos e' = clipPos e"
  "docLines e' = docLines e \<Longrightarrow> clipLine e' = clipLine e"
  by (simp_all add: clipPos_def clipLine_def lastLine_def lineLength_def fun_eq_iff)

lemma markText_fields:
  "fst (markText from to cls e) = nextMark e"
  "nextMark (snd (markText from to cls e)) = Suc (nextMark e)"
  "docLines (snd (markText from to cls e)) = docLines e"
  "gutter (snd (markText from to cls e)) = gutter e"
  "marks (snd (markText from to cls e)) =
     marks e @
     (if cmpPos (clipPos e from) (clipPos e to) < 0
      then [\<lparr>markId = nextMark e, markFrom = clipPos e from, markTo = clipPos e to,
             className = cls\<rparr>]
      else [])"
  by (auto simp: markText_def Let_def)

lemma diagnosticStep_eq:
  "diagnosticStep d s =
     s\<lparr>markedDiagnostics := markedDiagnostics s @ [nextMark (editor s)],
       diagnosticResults :=
         (case findIndex (\<lambda>r. tokStart r = toPosition (rangeStart (drange d)) \<and>
                               tokEnd r = toPosition (rangeEnd (drange d))) (diagnosticResults s) of
            Some i \<Rightarrow>
              (diagnosticResults s)[i := (diagnosticResults s ! i)
                 \<lparr>tokText := tokText (diagnosticResults s ! i) @ [message d]\<rparr>]
          | None \<Rightarrow>
              diagnosticResults s @
              [\<lparr>tokText = [message d], tokStart = toPosition (rangeStart (drange d)),
                tokEnd = toPosition (rangeEnd (drange d))\<rparr>]),
       editor :=
         (let e1 = snd (markText (toPosition (rangeStart (drange d)))
                      (toPosition (rangeEnd (drange d)))
                      (diagnosticMarkClassName (options s)) (editor s))
          in if enableGutterMarks (options s)
             then setGutterMarker (line (toPosition (rangeStart (drange d)))) (message d) e1
             else e1)\<rparr>"
proof -
  obtain a b where mt:
    "markText (toPosition (rangeStart (drange d))) (toPosition (rangeEnd (drange d)))
       (diagnosticMarkClassName (options s)) (editor s) = (a, b)"
    by (cases "markText (toPosition (rangeStart (drange d))) (toPosition (rangeEnd (drange d)))
                 (diagnosticMarkClassName (options s)) (editor s)")
  have a: "a = nextMark (editor s)"
    using markText_fields(1)
      [of "toPosition (rangeStart (drange d))" "toPosition (rangeEnd (drange d))"
          "diagnosticMarkClassName (options s)" "editor s"] mt
    by simp
  show ?thesis
    unfolding diagnosticStep_def Let_def mt by (simp add: a)
qed

lemma diagnosticStep_fields:
  "options (diagnosticStep d s) = options s"
  "markedDiagnostics (diagnosticStep d s) = markedDiagnostics s @ [nextMark (editor s)]"
  "nextMark (editor (diagnosticStep d s)) = Suc (nextMark (editor s))"
  "docLines (editor (diagnosticStep d s)) = docLines (editor s)"
  "marks (editor (diagnosticStep d s)) =
     marks (editor s) @
     (if cmpPos (clipPos (editor s) (toPosition (rangeStart (drange d))))
                (clipPos (editor s) (toPosition (rangeEnd (drange d)))) < 0
      then [\<lparr>markId = nextMark (editor s),
             markFrom = clipPos (editor s) (toPosition (rangeStart (drange d))),
             markTo = clipPos (editor s) (toPosition (rangeEnd (drange d))),
             className = diagnosticMarkClassName (options s)\<rparr>]
      else [])"
  "gutter (editor (diagnosticStep d s)) =
     (if enableGutterMarks (options s)
      then AList.update (clipLine (editor s) (line (toPosition (rangeStart (drange d)))))
             (message d) (gutter (editor s))
      else gutter (editor s))"
  by (simp_all add: diagnosticStep_eq Let_def markText_fields setGutterMarker_def
      clip_docLines [OF markText_fields(3)])

lemma diagnosticStep_results:
  "diagnosticResults (diagnosticStep d s) =
     (case findIndex (\<lambda>r. tokStart r = toPosition (rangeStart (drange d)) \<and>
                           tokEnd r = toPosition (rangeEnd (drange d))) (diagnosticResults s) of
        Some i \<Rightarrow>
          (diagnosticResults s)[i := (diagnosticResults s ! i)
             \<lparr>tokText := tokText (diagnosticResults s ! i) @ [message d]\<rparr>]
      | None \<Rightarrow>
          diagnosticResults s @
          [\<lparr>tokText = [message d], tokStart = toPosition (rangeStart (drange d)),
            tokEnd = toPosition (rangeEnd (drange d))\<rparr>])"
  by (simp add: diagnosticStep_eq)

text \<open>
  Claim C3, amended. With diagnostics enabled, a publication of two diagnostics with the same
  start and end and different messages makes two text markers, one for each diagnostic.
  After the earlier diagnostic marks are cleared, the editor holds both as marked ranges
  over the range clipped to the document when that clipped range is not empty, and neither
  when it is empty or reversed. The tracker holds exactly one entry, with the start and end
  as published and both messages in the order of the publication. When gutter marks are
  enabled there is exactly one gutter marker, on the line of the start clipped to the
  document, with the second message as its title; there is none when they are disabled.
  After any publication no two tracker entries share a (start, end) pair.
\<close>

theorem same_range_diagnostics:
  assumes "enableDiagnostics (options s)" and "drange d1 = drange d2"
  shows "(let s' = handleDiagnostic \<lparr>uri = u, diagnostics = [d1, d2]\<rparr> s;
              st = toPosition (rangeStart (drange d1));
              en = toPosition (rangeEnd (drange d1));
              from' = clipPos (editor s) st;
              to' = clipPos (editor s) en;
              n = nextMark (editor s);
              cls = diagnosticMarkClassName (options s)
          in markedDiagnostics s' = [n, Suc n]
           \<and> marks (editor s') =
               filter (\<lambda>k. markId k \<notin> set (markedDiagnostics s)) (marks (editor s)) @
               (if cmpPos from' to' < 0
                then [\<lparr>markId = n, markFrom = from', markTo = to', className = cls\<rparr>,
                      \<lparr>markId = Suc n, markFrom = from', markTo = to', className = cls\<rparr>]
                else [])
           \<and> diagnosticResults s' =
               [\<lparr>tokText = [message d1, message d2], tokStart = st, tokEnd = en\<rparr>]
           \<and> gutter (editor s') =
               (if enableGutterMarks (options s)
                then [(clipLine (editor s) (line st), message d2)] else []))
         \<and> distinct (map (\<lambda>r. (tokStart r, tokEnd r))
              (diagnosticResults (handleDiagnostic response s)))"
proof
  define s0 where "s0 = clearDiagnostics s"
  define s2 where "s2 = s0\<lparr>editor := (editor s0)
      \<lparr>signals := signals (editor s0) @ [(''lsp/diagnostics'', [d1, d2])]\<rparr>\<rparr>"
  define s3 where "s3 = diagnosticStep d1 s2"
  have run: "handleDiagnostic \<lparr>uri = u, diagnostics = [d1, d2]\<rparr> s = diagnosticStep d2 s3"
    using assms(1) by (simp add: handleDiagnostic_def Let_def s0_def s2_def s3_def)
  have s2: "options s2 = options s" "markedDiagnostics s2 = []" "diagnosticResults s2 = []"
    "nextMark (editor s2) = nextMark (editor s)" "docLines (editor s2) = docLines (editor s)"
    "gutter (editor s2) = []"
    "marks (editor s2) =
       filter (\<lambda>k. markId k \<notin> set (markedDiagnostics s)) (marks (editor s))"
    by (simp_all add: s2_def s0_def clearDiagnostics_def clearGutter_def fold_clearMark)
  have clip2: "clipPos (editor s2) = clipPos (editor s)" "clipLine (editor s2) = clipLine (editor s)"
    using s2(5) by (rule clip_docLines)+
  have s3: "options s3 = options s" "markedDiagnostics s3 = [nextMark (editor s)]"
    "nextMark (editor s3) = Suc (nextMark (editor s))" "docLines (editor s3) = docLines (editor s)"
    by (simp_all add: s3_def diagnosticStep_fields s2)
  have clip3: "clipPos (editor s3) = clipPos (editor s)" "clipLine (editor s3) = clipLine (editor s)"
    using s3(4) by (rule clip_docLines)+
  have r3: "diagnosticResults s3 =
      [\<lparr>tokText = [message d1], tokStart = toPosition (rangeStart (drange d1)),
        tokEnd = toPosition (rangeEnd (drange d1))\<rparr>]"
    by (simp add: s3_def diagnosticStep_results s2)
  have m3: "marks (editor s3) =
      filter (\<lambda>k. markId k \<notin> set (markedDiagnostics s)) (marks (editor s)) @
      (if cmpPos (clipPos (editor s) (toPosition (rangeStart (drange d1))))
                 (clipPos (editor s) (toPosition (rangeEnd (drange d1)))) < 0
       then [\<lparr>markId = nextMark (editor s),
              markFrom = clipPos (editor s) (toPosition (rangeStart (drange d1))),
              markTo = clipPos (editor s) (toPosition (rangeEnd (drange d1))),
              className = diagnosticMarkClassName (options s)\<rparr>]
       else [])"
    unfolding s3_def diagnosticStep_fields s2 clip2 ..
  have g3: "gutter (editor s3) =
      (if enableGutterMarks (options s)
       then [(clipLine (editor s) (line (toPosition (rangeStart (drange d1)))), message d1)]
       else [])"
    unfolding s3_def diagnosticStep_fields s2 clip2 by simp
  have r4: "diagnosticResults (diagnosticStep d2 s3) =
      [\<lparr>tokText = [message d1, message d2], tokStart = toPosition (rangeStart (drange d1)),
        tokEnd = toPosition (rangeEnd (drange d1))\<rparr>]"
    using assms(2) by (simp add: diagnosticStep_results r3)
  have m4: "marks (editor (diagnosticStep d2 s3)) =
      filter (\<lambda>k. markId k \<notin> set (markedDiagnostics s)) (marks (editor s)) @
      (if cmpPos (clipPos (editor s) (toPosition (rangeStart (drange d1))))
                 (clipPos (editor s) (toPosition (rangeEnd (drange d1)))) < 0
       then [\<lparr>markId = nextMark (editor s),
              markFrom = clipPos (editor s) (toPosition (rangeStart (drange d1))),
              markTo = clipPos (editor s) (toPosition (rangeEnd (drange d1))),
              className = diagnosticMarkClassName (options s)\<rparr>,
             \<lparr>markId = Suc (nextMark (editor s)),
              markFrom = clipPos (editor s) (toPosition (rangeStart (drange d1))),
              markTo = clipPos (editor s) (toPosition (rangeEnd (drange d1))),
              className = diagnosticMarkClassName (options s)\<rparr>]
       else [])"
    unfolding diagnosticStep_fields s3 clip3 m3 using assms(2) by simp
  have g4: "gutter (editor (diagnosticStep d2 s3)) =
      (if enableGutterMarks (options s)
       then [(clipLine (editor s) (line (toPosition (rangeStart (drange d1)))), message d2)]
       else [])"
    unfolding diagnosticStep_fields s3 clip3 g3 using assms(2) by simp
  have d4: "markedDiagnostics (diagnosticStep d2 s3) =
      [nextMark (editor s), Suc (nextMark (editor s))]"
    by (simp add: diagnosticStep_fields s3)
  show "(let s' = handleDiagnostic \<lparr>uri = u, diagnostics = [d1, d2]\<rparr> s;
              st = toPosition (rangeStart (drange d1));
              en = toPosition (rangeEnd (drange d1));
              from' = clipPos (editor s) st;
              to' = clipPos (editor s) en;
              n = nextMark (editor s);
              cls = diagnosticMarkClassName (options s)
          in markedDiagnostics s' = [n, Suc n]
           \<and> marks (editor s') =
               filter (\<lambda>k. markId k \<notin> set (markedDiagnostics s)) (marks (editor s)) @
               (if cmpPos from' to' < 0
                then [\<lparr>markId = n, markFrom = from', markTo = to', className = cls\<rparr>,
                      \<lparr>markId = Suc n, markFrom = from', markTo = to', className = cls\<rparr>]
                else [])
           \<and> diagnosticResults s' =
               [\<lparr>tokText = [message d1, message d2], tokStart = st, tokEnd = en\<rparr>]
           \<and> gutter (editor s') =
               (if enableGutterMarks (options s)
                then [(clipLine (editor s) (line st), message d2)] else []))"
    unfolding Let_def run d4 m4 r4 g4 by simp
  show "distinct (map (\<lambda>r. (tokStart r, tokEnd r))
              (diagnosticResults (handleDiagnostic response s)))"
    using handleDiagnostic_distinct [of s response] assms(1)
    by (simp add: entryKey_def [abs_def])
qed

text \<open>
  Counterexample to claim C3 as stated. The editor holds the line \<open>.myClass {}\<close> and no marks;
  after a publication of two diagnostics over the range from column 0 to column 7 of that
  line it holds two marked ranges, not one.
\<close>

theorem same_range_two_marks:
  "marks (editor exampleAdapter) = []
   \<and> length (marks (editor (handleDiagnostic exampleDiagnostics exampleAdapter))) = 2
   \<and> length (markedDiagnostics (handleDiagnostic exampleDiagnostics exampleAdapter)) = 2"
  by code_simp

lemma exampleAdapter_facts:
  "enableDiagnostics (options exampleAdapter)"
  "enableGutterMarks (options exampleAdapter)"
  "nextMark (editor exampleAdapter) = 0"
  "marks (editor exampleAdapter) = []"
  "markedDiagnostics exampleAdapter = []"
  "diagnosticMarkClassName (options exampleAdapter) = ''CodeMirror-lsp-diagnostic''"
  "clipPos (editor exampleAdapter) \<lparr>line = 0, ch = 0\<rparr> = \<lparr>line = 0, ch = 0\<rparr>"
  "clipPos (editor exampleAdapter) \<lparr>line = 0, ch = 7\<rparr> = \<lparr>line = 0, ch = 7\<rparr>"
  "clipLine (editor exampleAdapter) 0 = 0"
  "cmpPos \<lparr>line = 0, ch = 0\<rparr> \<lparr>line = 0, ch = 7\<rparr> < 0"
  by code_simp+

text \<open>
  The amended claim C3 at the example publication: marks 0 and 1 in the editor, one entry
  with both messages, one gutter marker on line 0.
\<close>

theorem same_range_diagnostics_witness:
  "enableDiagnostics (options exampleAdapter)
   \<and> drange \<lparr>drange = mkRange 0 0 0 7, message = ''Do not use empty rulesets''\<rparr> =
     drange \<lparr>drange = mkRange 0 0 0 7, message = ''Unknown property''\<rparr>
   \<and> markedDiagnostics (handleDiagnostic exampleDiagnostics exampleAdapter) = [0, 1]
   \<and> map markId (marks (editor (handleDiagnostic exampleDiagnostics exampleAdapter))) = [0, 1]
   \<and> diagnosticResults (handleDiagnostic exampleDiagnostics exampleAdapter) =
       [\<lparr>tokText = [''Do not use empty rulesets'', ''Unknown property''],
         tokStart = \<lparr>line = 0, ch = 0\<rparr>, tokEnd = \<lparr>line = 0, ch = 7\<rparr>\<rparr>]
   \<and> gutter (editor (handleDiagnostic exampleDiagnostics exampleAdapter)) =
       [(0, ''Unknown property'')]"
  using same_range_diagnostics
    [of exampleAdapter "\<lparr>drange = mkRange 0 0 0 7, message = ''Do not use empty rulesets''\<rparr>"
        "\<lparr>drange = mkRange 0 0 0 7, message = ''Unknown property''\<rparr>" "''file:///a.ts''"
        exampleDiagnostics]
  by (simp add: exampleAdapter_facts exampleDiagnostics_def Let_def mkRange_def toPosition_def)

text \<open>
  What \<open>remove\<close> does to the diagnostics: its statements after \<open>_clearDiagnostics\<close> touch
  listeners and hint lists only.
\<close>

lemma fold_frame:
  assumes "\<And>k t. p (F k t) = p t"
  shows "p (fold F ks s) = p s"
  by (induction ks arbitrary: s) (simp_all add: assms)

lemma forEachKey_frame:
  "markedDiagnostics (forEachKey m offConnection s) = markedDiagnostics s"
  "diagnosticResults (forEachKey m offConnection s) = diagnosticResults s"
  "editor (forEachKey m offConnection s) = editor s"
  "markedDiagnostics (forEachKey m offDocument s) = markedDiagnostics s"
  "diagnosticResults (forEachKey m offDocument s) = diagnosticResults s"
  "editor (forEachKey m offDocument s) = editor s"
  unfolding forEachKey_def
  by (rule fold_frame, simp add: offConnection_def offDocument_def)+

lemma teardown_frame:
  "markedDiagnostics (removeSignatureWidget s) = markedDiagnostics s"
  "markedDiagnostics (removeHover s) = markedDiagnostics s"
  "markedDiagnostics (removeTooltip s) = markedDiagnostics s"
  by (simp_all add: removeSignatureWidget_def removeHover_def removeTooltip_def Let_def
      split: option.splits)

lemma inOrder_append: "inOrder (xs @ ys) s = inOrder ys (inOrder xs s)"
  by (simp add: inOrder_def)

lemma inOrder_frame:
  assumes "list_all (\<lambda>f. \<forall>t. p (f t) = p t) fs"
  shows "p (inOrder fs s) = p s"
  using assms unfolding inOrder_def by (induction fs arbitrary: s) simp_all

lemma offWrapper_frame:
  "markedDiagnostics (offWrapper ev h t) = markedDiagnostics t"
  "diagnosticResults (offWrapper ev h t) = diagnosticResults t"
  "gutter (editor (offWrapper ev h t)) = gutter (editor t)"
  "marks (editor (offWrapper ev h t)) = marks (editor t)"
  "markedDiagnostics (offEditor ev h t) = markedDiagnostics t"
  "diagnosticResults (offEditor ev h t) = diagnosticResults t"
  "gutter (editor (offEditor ev h t)) = gutter (editor t)"
  "marks (editor (offEditor ev h t)) = marks (editor t)"
  by (simp_all add: offWrapper_def offEditor_def)

lemma remove_split:
  "remove s =
     inOrder
       [\<lambda>s. s\<lparr>editor := (editor s)\<lparr>hintLists := []\<rparr>\<rparr>,
        \<lambda>s. offEditor ''change'' (map_of (editorListeners s) ''change'') s,
        \<lambda>s. offEditor ''cursorActivity'' (map_of (editorListeners s) ''cursorActivity'') s,
        \<lambda>s. offWrapper ''mousemove'' (map_of (editorListeners s) ''mouseover'') s,
        \<lambda>s. if enableContextMenu (options s)
             then offWrapper ''contextmenu'' (map_of (editorListeners s) ''contextmenu'') s
             else s,
        \<lambda>s. forEachKey (connectionListeners s) offConnection s,
        \<lambda>s. forEachKey (documentListeners s) offDocument s]
       (clearDiagnostics (removeTooltip (removeHover (removeSignatureWidget s))))"
proof -
  have "clearDiagnostics (removeTooltip (removeHover (removeSignatureWidget s))) =
        inOrder [removeSignatureWidget, removeHover, removeTooltip, clearDiagnostics] s"
    by (simp add: inOrder_def)
  then show ?thesis
    unfolding remove_def by (simp only: inOrder_append [symmetric] append.simps)
qed

lemma remove_diagnostic_view:
  "(markedDiagnostics (remove s), diagnosticResults (remove s),
    gutter (editor (remove s)), marks (editor (remove s))) =
   ([], [], [],
    filter (\<lambda>k. markId k \<notin> set (markedDiagnostics s))
      (marks (editor (removeTooltip (removeHover (removeSignatureWidget s))))))"
proof -
  let ?p = "\<lambda>t. (markedDiagnostics t, diagnosticResults t, gutter (editor t), marks (editor t))"
  let ?c = "clearDiagnostics (removeTooltip (removeHover (removeSignatureWidget s)))"
  have "?p (remove s) = ?p ?c"
    unfolding remove_split
    by (rule inOrder_frame) (simp add: forEachKey_frame offWrapper_frame)
  also have "\<dots> = ([], [], [],
      filter (\<lambda>k. markId k \<notin> set (markedDiagnostics s))
        (marks (editor (removeTooltip (removeHover (removeSignatureWidget s))))))"
    by (simp add: clearDiagnostics_def clearGutter_def fold_clearMark teardown_frame)
  finally show ?thesis .
qed

lemma remove_clears_diagnostics:
  "markedDiagnostics (remove s) = []"
  "diagnosticResults (remove s) = []"
  "gutter (editor (remove s)) = []"
  "k \<in> set (marks (editor (remove s))) \<Longrightarrow> markId k \<notin> set (markedDiagnostics s)"
  using remove_diagnostic_view [of s] by auto

text \<open>
  Counterexample to claim C10 as stated. The adapter shows two diagnostics while its options
  have diagnostics disabled; \<open>remove\<close>, which is no \<open>updateOptions\<close> call, clears the marked
  diagnostics, their marks in the editor, the tracker entries and the gutter.
\<close>

theorem remove_clears_disabled_diagnostics:
  "\<not> enableDiagnostics (options disabledAdapter)
   \<and> markedDiagnostics disabledAdapter = [0, 1]
   \<and> map markId (marks (editor disabledAdapter)) = [0, 1]
   \<and> length (diagnosticResults disabledAdapter) = 1
   \<and> gutter (editor disabledAdapter) = [(0, ''Unknown property'')]
   \<and> markedDiagnostics (remove disabledAdapter) = []
   \<and> marks (editor (remove disabledAdapter)) = []
   \<and> diagnosticResults (remove disabledAdapter) = []
   \<and> gutter (editor (remove disabledAdapter)) = []"
  by code_simp

text \<open>
  Claim C10, amended. While \<open>enableDiagnostics\<close> is false, \<open>handleDiagnostic\<close> returns the
  adapter, the editor included, exactly as it was: the marked diagnostics, the tracker
  entries, the gutter and the marks stay, so the publication itself clears nothing. An
  \<open>updateOptions\<close> call whose filled options disable diagnostics empties the list of marked
  diagnostics, the tracker and the gutter and clears the diagnostic marks in the editor; an
  \<open>updateOptions\<close> call whose filled options keep diagnostics enabled changes the options
  only. \<open>remove\<close> clears them too, whatever the options: after it the list of marked
  diagnostics, the tracker and the gutter are empty and no mark of a diagnostic is left.
\<close>

theorem diagnostics_disabled_frame:
  "(\<not> enableDiagnostics (options s) \<longrightarrow> handleDiagnostic response s = s)
   \<and> (\<not> enableDiagnostics (getFilledDefaults opts) \<longrightarrow>
        (let s' = updateOptions getFilledDefaults opts s
         in markedDiagnostics s' = [] \<and> diagnosticResults s' = [] \<and> gutter (editor s') = []
          \<and> marks (editor s') =
              filter (\<lambda>k. markId k \<notin> set (markedDiagnostics s)) (marks (editor s))))
   \<and> (enableDiagnostics (getFilledDefaults opts) \<longrightarrow>
        updateOptions getFilledDefaults opts s = s\<lparr>options := getFilledDefaults opts\<rparr>)
   \<and> markedDiagnostics (remove s) = []
   \<and> diagnosticResults (remove s) = []
   \<and> gutter (editor (remove s)) = []
   \<and> (\<forall>k \<in> set (marks (editor (remove s))). markId k \<notin> set (markedDiagnostics s))"
  by (simp add: handleDiagnostic_def updateOptions_def clearDiagnostics_def clearGutter_def
      fold_clearMark Let_def remove_clears_diagnostics)

lemma disabledAdapter_facts:
  "\<not> enableDiagnostics (options disabledAdapter)"
  "markedDiagnostics disabledAdapter = [0, 1]"
  "length (diagnosticResults disabledAdapter) = 1"
  "gutter (editor disabledAdapter) = [(0, ''Unknown property'')]"
  "map markId (marks (editor disabledAdapter)) = [0, 1]"
  "enableDiagnostics (options (handleDiagnostic exampleDiagnostics exampleAdapter))"
  "markedDiagnostics (handleDiagnostic exampleDiagnostics exampleAdapter) = [0, 1]"
  by code_simp+

text \<open>
  The amended claim C10 at an adapter that shows two diagnostics while diagnostics are
  switched off: a publication leaves them, \<open>updateOptions\<close> and \<open>remove\<close> clear them.
\<close>

theorem diagnostics_disabled_frame_witness:
  "\<not> enableDiagnostics (options disabledAdapter)
   \<and> markedDiagnostics disabledAdapter = [0, 1]
   \<and> gutter (editor disabledAdapter) = [(0, ''Unknown property'')]
   \<and> handleDiagnostic \<lparr>uri = ''file:///a.ts'', diagnostics = []\<rparr> disabledAdapter = disabledAdapter
   \<and> \<not> enableDiagnostics (id (exampleOptions\<lparr>enableDiagnostics := False\<rparr>))
   \<and> markedDiagnostics
        (updateOptions id (exampleOptions\<lparr>enableDiagnostics := False\<rparr>) disabledAdapter) = []
   \<and> gutter (editor
        (updateOptions id (exampleOptions\<lparr>enableDiagnostics := False\<rparr>) disabledAdapter)) = []
   \<and> markedDiagnostics (remove disabledAdapter) = []
   \<and> gutter (editor (remove disabledAdapter)) = []"
  using diagnostics_disabled_frame
      [of disabledAdapter "\<lparr>uri = ''file:///a.ts'', diagnostics = []\<rparr>" id
          "exampleOptions\<lparr>enableDiagnostics := False\<rparr>"]
  by (simp add: disabledAdapter_facts Let_def)

section \<open>Pointer events, go-to and signature help: properties\<close>

lemma removeHover_frame:
  "tooltip (removeHover s) = tooltip s"
  "isShowingContextMenu (removeHover s) = isShowingContextMenu s"
  "overlays (editor (removeHover s)) = overlays (editor s)"
  "connection (removeHover s) = connection s"
  "debouncedGetHover (removeHover s) = debouncedGetHover s"
  "hoverMarker (removeHover s) = None"
  by (simp_all add: removeHover_def clearMark_def split: option.splits)

lemma removeHover_marks:
  "hoverMarker s = Some m \<Longrightarrow> m \<notin> markId ` set (marks (editor (removeHover s)))"
  by (auto simp: removeHover_def clearMark_def)

lemma removeTooltip_frame:
  "hoverMarker (removeTooltip s) = hoverMarker s"
  "marks (editor (removeTooltip s)) = marks (editor s)"
  "connection (removeTooltip s) = connection s"
  "debouncedGetHover (removeTooltip s) = debouncedGetHover s"
  "tooltip (removeTooltip s) = tooltip s"
  by (simp_all add: removeTooltip_def split: option.splits)

lemma removeTooltip_unmounts:
  "tooltip s = Some t \<Longrightarrow>
   t \<notin> fst ` set (overlays (editor (removeTooltip s))) \<and> \<not> isShowingContextMenu (removeTooltip s)"
  by (auto simp: removeTooltip_def)

text \<open>
  An event whose target is the wrapper element or inside it passes the test of
  \<open>_isEventInsideVisible\<close>, wherever its coordinates lie.
\<close>

lemma insideVisible_inside:
  "list_ex (\<lambda>el. ''CodeMirror'' \<in> set (classList el))
     (takeWhile (\<lambda>el. \<not> isBody el) chain) \<Longrightarrow>
   insideVisible chain = Inr True"
  by (induction chain) (auto split: if_splits)

lemma insideEditorElement_visible:
  "insideEditorElement ev \<Longrightarrow> isEventInsideVisible ev = Inr True"
  unfolding insideEditorElement_def isEventInsideVisible_def by (rule insideVisible_inside)

text \<open>
  Counterexample to claim C6 as stated. The event of the repository's test, a \<open>mousemove\<close> on
  the wrapper element at the client position (0, 0), outside the rectangle of the editor,
  arrives while a hover marker and a tooltip are shown: \<open>handleMouseOver\<close> returns the adapter
  unchanged, so the marker and the tooltip stay. \<open>handleMouseLeave\<close>, which runs when the
  pointer leaves the editor, returns the adapter unchanged as well.
\<close>

theorem pointer_outside_keeps_marker:
  "positionOutside (wrapperRect (editor hoveringAdapter)) outsideMove
   \<and> insideEditorElement outsideMove
   \<and> hoverMarker hoveringAdapter = Some 0
   \<and> map markId (marks (editor hoveringAdapter)) = [0]
   \<and> tooltip hoveringAdapter = Some 0
   \<and> map fst (overlays (editor hoveringAdapter)) = [0]
   \<and> handleMouseOver outsideMove hoveringAdapter = Inr hoveringAdapter
   \<and> handleMouseLeave hoveringAdapter = hoveringAdapter"
  by code_simp

text \<open>
  Claim C6, amended. \<open>handleMouseLeave\<close> does nothing. The \<open>mousemove\<close> listener is on the
  wrapper element, so the target of every event it delivers is inside the editor element,
  wherever the position of the event lies. For every such event \<open>handleMouseOver\<close> leaves
  the adapter as it is when the editor reports no token at the position it resolves the
  coordinates to, when the event is on the open overlay, or when the resolved position is
  the last hovered one; otherwise it records the position and schedules the debounced hover
  request for it. So for such an event whose position lies outside the rectangle of the
  editor the hover marker, the tooltip, the editor and the connection stay as they are, and
  with no token at the resolved position nothing is scheduled. Only for an event whose
  target is outside the editor element (which no listener of the adapter delivers) does
  \<open>handleMouseOver\<close> tear down at once: over a token and not on the overlay it clears the
  hover marker and unmounts the tooltip, sends no request and schedules none; otherwise it
  returns the adapter as it was.
\<close>

theorem pointer_move_outside:
  "handleMouseLeave s = s
   \<and> (insideEditorElement ev \<longrightarrow>
        handleMouseOver ev s =
          Inr (if \<not> isEventOnCharacter ev \<or> isEventOnTooltip s ev \<or>
                  hoverCharacter s = Some (coordsChar ev)
               then s
               else s\<lparr>hoverCharacter := Some (coordsChar ev),
                      debouncedGetHover := callDebounced (coordsChar ev) (debouncedGetHover s)\<rparr>))
   \<and> (insideEditorElement ev \<and> positionOutside (wrapperRect (editor s)) ev \<longrightarrow>
        (\<exists>s'. handleMouseOver ev s = Inr s' \<and>
              hoverMarker s' = hoverMarker s \<and> tooltip s' = tooltip s \<and>
              isShowingContextMenu s' = isShowingContextMenu s \<and>
              editor s' = editor s \<and> connection s' = connection s \<and>
              (\<not> isEventOnCharacter ev \<longrightarrow> s' = s)))
   \<and> (isEventInsideVisible ev = Inr False \<longrightarrow>
        handleMouseOver ev s =
          Inr (if isEventOnCharacter ev \<and> \<not> isEventOnTooltip s ev
               then removeTooltip (removeHover s) else s))
   \<and> hoverMarker (removeTooltip (removeHover s)) = None
   \<and> (\<forall>m. hoverMarker s = Some m \<longrightarrow>
          m \<notin> markId ` set (marks (editor (removeTooltip (removeHover s)))))
   \<and> (\<forall>t. tooltip s = Some t \<longrightarrow>
          t \<notin> fst ` set (overlays (editor (removeTooltip (removeHover s)))) \<and>
          \<not> isShowingContextMenu (removeTooltip (removeHover s)))
   \<and> requests (connection (removeTooltip (removeHover s))) = requests (connection s)
   \<and> debouncedGetHover (removeTooltip (removeHover s)) = debouncedGetHover s"
proof (intro conjI allI impI)
  show "handleMouseLeave s = s"
    by (simp add: handleMouseLeave_def)
  show "hoverMarker (removeTooltip (removeHover s)) = None"
    by (simp add: removeTooltip_frame removeHover_frame)
  show "requests (connection (removeTooltip (removeHover s))) = requests (connection s)"
    by (simp add: removeTooltip_frame removeHover_frame)
  show "debouncedGetHover (removeTooltip (removeHover s)) = debouncedGetHover s"
    by (simp add: removeTooltip_frame removeHover_frame)
next
  assume "insideEditorElement ev"
  then have "isEventInsideVisible ev = Inr True"
    by (rule insideEditorElement_visible)
  then show "handleMouseOver ev s =
          Inr (if \<not> isEventOnCharacter ev \<or> isEventOnTooltip s ev \<or>
                  hoverCharacter s = Some (coordsChar ev)
               then s
               else s\<lparr>hoverCharacter := Some (coordsChar ev),
                      debouncedGetHover := callDebounced (coordsChar ev) (debouncedGetHover s)\<rparr>)"
    by (simp add: handleMouseOver_def Let_def)
next
  assume "insideEditorElement ev \<and> positionOutside (wrapperRect (editor s)) ev"
  then have "isEventInsideVisible ev = Inr True"
    by (simp add: insideEditorElement_visible)
  then show "\<exists>s'. handleMouseOver ev s = Inr s' \<and>
              hoverMarker s' = hoverMarker s \<and> tooltip s' = tooltip s \<and>
              isShowingContextMenu s' = isShowingContextMenu s \<and>
              editor s' = editor s \<and> connection s' = connection s \<and>
              (\<not> isEventOnCharacter ev \<longrightarrow> s' = s)"
    by (simp add: handleMouseOver_def Let_def)
next
  assume "isEventInsideVisible ev = Inr False"
  then show "handleMouseOver ev s =
          Inr (if isEventOnCharacter ev \<and> \<not> isEventOnTooltip s ev
               then removeTooltip (removeHover s) else s)"
    by (simp add: handleMouseOver_def)
next
  fix m assume "hoverMarker s = Some m"
  then show "m \<notin> markId ` set (marks (editor (removeTooltip (removeHover s))))"
    using removeHover_marks [of s m] by (simp add: removeTooltip_frame)
next
  fix t assume t: "tooltip s = Some t"
  then have "tooltip (removeHover s) = Some t" by (simp add: removeHover_frame)
  then show "t \<notin> fst ` set (overlays (editor (removeTooltip (removeHover s))))"
    and "\<not> isShowingContextMenu (removeTooltip (removeHover s))"
    using removeTooltip_unmounts [of "removeHover s" t] by simp_all
qed

lemma hovering_facts:
  "insideEditorElement outsideMove"
  "positionOutside (wrapperRect (editor hoveringAdapter)) outsideMove"
  "\<not> isEventOnCharacter outsideMove"
  "insideEditorElement outsideMoveOverToken"
  "positionOutside (wrapperRect (editor hoveringAdapter)) outsideMoveOverToken"
  "isEventOnCharacter outsideMoveOverToken"
  "\<not> isEventOnTooltip hoveringAdapter outsideMoveOverToken"
  "hoverCharacter hoveringAdapter = Some \<lparr>line = 0, ch = 1\<rparr>"
  "coordsChar outsideMoveOverToken = \<lparr>line = 0, ch = 11\<rparr>"
  "isEventInsideVisible foreignMove = Inr False"
  "isEventOnCharacter foreignMove"
  "\<not> isEventOnTooltip hoveringAdapter foreignMove"
  "hoverMarker hoveringAdapter = Some 0"
  "tooltip hoveringAdapter = Some 0"
  "marks (editor (removeTooltip (removeHover hoveringAdapter))) = []"
  "overlays (editor (removeTooltip (removeHover hoveringAdapter))) = []"
  by code_simp+

text \<open>
  The amended claim C6 at three events, for the adapter that shows a hover marker and a
  tooltip: the event of the repository's test (nothing changes), an event on the wrapper
  element to the right of the editor for which the editor reports a token (a hover request
  is scheduled, the marker and the tooltip stay), and a call with an event whose target is
  outside the editor element (the marker and the tooltip are removed).
\<close>

theorem pointer_move_outside_witness:
  "insideEditorElement outsideMove
   \<and> positionOutside (wrapperRect (editor hoveringAdapter)) outsideMove
   \<and> handleMouseOver outsideMove hoveringAdapter = Inr hoveringAdapter
   \<and> insideEditorElement outsideMoveOverToken
   \<and> positionOutside (wrapperRect (editor hoveringAdapter)) outsideMoveOverToken
   \<and> handleMouseOver outsideMoveOverToken hoveringAdapter =
       Inr (hoveringAdapter
             \<lparr>hoverCharacter := Some \<lparr>line = 0, ch = 11\<rparr>,
              debouncedGetHover :=
                callDebounced \<lparr>line = 0, ch = 11\<rparr> (debouncedGetHover hoveringAdapter)\<rparr>)
   \<and> isEventInsideVisible foreignMove = Inr False
   \<and> hoverMarker hoveringAdapter = Some 0
   \<and> tooltip hoveringAdapter = Some 0
   \<and> handleMouseOver foreignMove hoveringAdapter = Inr (removeTooltip (removeHover hoveringAdapter))
   \<and> marks (editor (removeTooltip (removeHover hoveringAdapter))) = []
   \<and> overlays (editor (removeTooltip (removeHover hoveringAdapter))) = []"
proof -
  note at_test_event = pointer_move_outside [of hoveringAdapter outsideMove]
  note at_token = pointer_move_outside [of hoveringAdapter outsideMoveOverToken]
  note at_foreign = pointer_move_outside [of hoveringAdapter foreignMove]
  have a: "handleMouseOver outsideMove hoveringAdapter = Inr hoveringAdapter"
    using at_test_event [THEN conjunct2, THEN conjunct1] by (simp add: hovering_facts)
  have b: "handleMouseOver outsideMoveOverToken hoveringAdapter =
       Inr (hoveringAdapter
             \<lparr>hoverCharacter := Some \<lparr>line = 0, ch = 11\<rparr>,
              debouncedGetHover :=
                callDebounced \<lparr>line = 0, ch = 11\<rparr> (debouncedGetHover hoveringAdapter)\<rparr>)"
    using at_token [THEN conjunct2, THEN conjunct1] by (simp add: hovering_facts)
  have c: "handleMouseOver foreignMove hoveringAdapter =
       Inr (removeTooltip (removeHover hoveringAdapter))"
    using at_foreign [THEN conjunct2, THEN conjunct2, THEN conjunct2, THEN conjunct1]
    by (simp add: hovering_facts)
  from a b c hovering_facts show ?thesis by (intro conjI)
qed

text \<open>
  Claim C2. For a list of locations none of which belongs to the current document,
  \<open>handleGoTo\<close> throws a \<open>TypeError\<close> (it reads \<open>locations[0].range\<close> of the empty filtered
  list), where the claim has it complete without scrolling. The branch for a single location
  has the guard the list branch misses: a location of another document returns after
  removing the tooltip.
\<close>

theorem goto_other_documents_throws:
  "(filter (\<lambda>l. locUri l = documentUri (connection s)) ls = [] \<longrightarrow>
      handleGoTo (LocationList ls) s = Inl TypeError)
   \<and> (locUri l \<noteq> documentUri (connection s) \<longrightarrow>
      handleGoTo (OneLocation l) s = Inr (removeTooltip s))"
  by (simp add: handleGoTo_def goToRanges_def Let_def removeTooltip_frame)

lemma exampleAdapter_uri: "documentUri (connection exampleAdapter) = ''file:///a.ts''"
  by code_simp

text \<open>
  Claim C2 at a list with one location of the document \<open>file:///b.ts\<close>, for an adapter of the
  document \<open>file:///a.ts\<close>.
\<close>

theorem goto_other_documents_throws_witness:
  "filter (\<lambda>l. locUri l = documentUri (connection exampleAdapter))
     [\<lparr>locUri = ''file:///b.ts'', locRange = mkRange 0 0 0 3\<rparr>] = []
   \<and> handleGoTo (LocationList [\<lparr>locUri = ''file:///b.ts'', locRange = mkRange 0 0 0 3\<rparr>])
       exampleAdapter = Inl TypeError
   \<and> locUri \<lparr>locUri = ''file:///b.ts'', locRange = mkRange 0 0 0 3\<rparr> \<noteq>
       documentUri (connection exampleAdapter)
   \<and> handleGoTo (OneLocation \<lparr>locUri = ''file:///b.ts'', locRange = mkRange 0 0 0 3\<rparr>)
       exampleAdapter = Inr (removeTooltip exampleAdapter)"
  using goto_other_documents_throws
    [of exampleAdapter "[\<lparr>locUri = ''file:///b.ts'', locRange = mkRange 0 0 0 3\<rparr>]"
        "\<lparr>locUri = ''file:///b.ts'', locRange = mkRange 0 0 0 3\<rparr>"]
  by (simp add: exampleAdapter_uri)

text \<open>
  Claim C5. Three responses on which a handler throws instead of leaving the interface as it
  is: an empty list of locations, an empty list of location links, and a signature help
  without its \<open>signatures\<close> field.
\<close>

theorem empty_responses_throw:
  "handleGoTo (LocationList []) exampleAdapter = Inl TypeError
   \<and> handleGoTo (LocationLinkList []) exampleAdapter = Inl TypeError
   \<and> handleSignature (Some \<lparr>signatures = None\<rparr>) exampleAdapter = Inl TypeError"
  by code_simp

text \<open>
  Claim C1. After \<open>remove\<close> on a newly constructed adapter, whatever its options, the editor
  still has the adapter's listeners for \<open>refresh\<close>, \<open>scroll\<close> and \<open>focus\<close>, the wrapper element
  the one for \<open>mouseleave\<close>, and the document the one for \<open>click\<close> (\<open>remove\<close> asks the
  document to drop listeners for the events \<open>clickOutside\<close> and \<open>clickInside\<close>, the keys of
  its own map); the connection has none left. The listener left for \<open>focus\<close> still changes the
  editor: after a go-to highlight and \<open>remove\<close>, it clears the highlight mark.
\<close>

theorem listeners_left_after_remove:
  "(let s = remove (constructor f (freshConnection u) opts freshEditor sn [])
    in editorHandlers (editor s) =
         [(''refresh'', HandleRefresh), (''scroll'', HandleScrollLeave),
          (''focus'', HandleClickInside)]
     \<and> wrapperHandlers (editor s) = [(''mouseleave'', HandleMouseLeave)]
     \<and> documentHandlers s = [(''click'', HandleClickOutside)]
     \<and> connectionHandlers (connection s) = [])
   \<and> (case handleGoTo (OneLocation \<lparr>locUri = ''file:///a.ts'', locRange = mkRange 0 0 0 3\<rparr>)
            exampleAdapter of
        Inl e \<Rightarrow> False
      | Inr s \<Rightarrow>
          highlightMarkers (remove s) = [0]
        \<and> map markId (marks (editor (remove s))) = [0]
        \<and> (''focus'', HandleClickInside) \<in> set (editorHandlers (editor (remove s)))
        \<and> marks (editor (handleClickInside (remove s))) = [])"
proof
  show "let s = remove (constructor f (freshConnection u) opts freshEditor sn [])
    in editorHandlers (editor s) =
         [(''refresh'', HandleRefresh), (''scroll'', HandleScrollLeave),
          (''focus'', HandleClickInside)]
     \<and> wrapperHandlers (editor s) = [(''mouseleave'', HandleMouseLeave)]
     \<and> documentHandlers s = [(''click'', HandleClickOutside)]
     \<and> connectionHandlers (connection s) = []"
    by (cases "enableContextMenu (f opts)")
       (simp_all add: remove_def constructor_def addListeners_def inOrder_def forEachKey_def
          setEditorListener_def setDocumentListener_def onEditor_def onWrapper_def
          onConnection_def onDocument_def offEditor_def offWrapper_def offConnection_def
          offDocument_def addListener_def removeListener_def removeSignatureWidget_def
          removeHover_def removeTooltip_def clearDiagnostics_def clearGutter_def
          freshEditor_def freshConnection_def debounce_def Let_def)
  show "case handleGoTo (OneLocation \<lparr>locUri = ''file:///a.ts'', locRange = mkRange 0 0 0 3\<rparr>)
            exampleAdapter of
        Inl e \<Rightarrow> False
      | Inr s \<Rightarrow>
          highlightMarkers (remove s) = [0]
        \<and> map markId (marks (editor (remove s))) = [0]
        \<and> (''focus'', HandleClickInside) \<in> set (editorHandlers (editor (remove s)))
        \<and> marks (editor (handleClickInside (remove s))) = []"
    by code_simp
qed

section \<open>Setup and teardown: properties\<close>

lemma addListeners_debounced:
  "debouncedGetHover (addListeners s) = debouncedGetHover s \<and>
   changeListener (addListeners s) =
     Some (debounce (debounceSuggestionsWhileTyping (options s)))"
  by (simp add: addListeners_def inOrder_def forEachKey_def setEditorListener_def
        setDocumentListener_def onEditor_def onWrapper_def onConnection_def onDocument_def)

text \<open>
  Claim C9. The interval of the debounced hover request is the \<open>quickSuggestionsDelay\<close> of
  the filled options the constructor gets, and the interval of the debounced change listener
  is their \<open>debounceSuggestionsWhileTyping\<close>. \<open>updateOptions\<close>, with any options, leaves both
  debounced functions (so their intervals) and the listeners installed on the editor and on
  its wrapper element as they were.
\<close>

theorem debounce_intervals_fixed:
  "wait (debouncedGetHover (constructor f conn opts ed sn doc)) = quickSuggestionsDelay (f opts)
   \<and> map_option wait (changeListener (constructor f conn opts ed sn doc)) =
       Some (debounceSuggestionsWhileTyping (f opts))
   \<and> debouncedGetHover (updateOptions g opts' s) = debouncedGetHover s
   \<and> changeListener (updateOptions g opts' s) = changeListener s
   \<and> editorHandlers (editor (updateOptions g opts' s)) = editorHandlers (editor s)
   \<and> wrapperHandlers (editor (updateOptions g opts' s)) = wrapperHandlers (editor s)"
  by (simp add: constructor_def addListeners_debounced updateOptions_def clearDiagnostics_def
      clearGutter_def fold_clearMark debounce_def Let_def)

end
